theory Spec2Isabelle
  imports Complex_Main
begin

section \<open>Entity model\<close>

text \<open>
  The entity interfaces of the tracker. A JavaScript \<open>number\<close> is modelled as a
  real (finite values only), a string as \<open>string\<close>, an optional field \<open>f?: T\<close> as
  \<open>T option\<close> (\<open>None\<close> is \<open>undefined\<close>). The type parameter \<open>'d\<close> is the type held by
  the \<open>Date\<close>-typed fields: a temporal value in the store, and a \<open>string\<close> in what
  \<open>JSON.parse\<close> returns for a ledger file.
\<close>

type_synonym number = real

record appliedEnchantment =
  enchantmentId :: string
  level :: number

record 'd customItem =
  c_id :: string
  c_name :: string
  baseItemId :: string
  c_description :: "string option"
  c_createdAt :: 'd

datatype quantityUnit = U_item | U_stack | U_ci | U_cs | U_sc | U_dc | U_i | U_d

record quantity =
  amount :: number
  unit :: quantityUnit

record coordinates =
  coord_x :: number
  coord_y :: number
  coord_z :: number

datatype ownerType = individual | group

record player =
  ign :: string
  uuid :: "string option"
  p_notes :: "string option"

record group =
  g_id :: string
  g_name :: string
  members :: "player list"
  leader :: "player option"
  g_notes :: "string option"

record shopOwner =
  o_type :: ownerType
  o_player :: "player option"
  o_group :: "group option"

record tradeItem =
  itemId :: string
  quantity :: quantity
  enchantments :: "appliedEnchantment list option"
  customName :: "string option"

record 'd trade =
  t_id :: string
  t_input :: tradeItem
  t_output :: tradeItem
  t_notes :: "string option"
  lastUpdated :: 'd
  t_isActive :: bool

record 'd shop =
  s_id :: string
  s_name :: string
  description :: "string option"
  owner :: shopOwner
  location :: coordinates
  trades :: "'d trade list"
  tags :: "string list option"
  s_createdAt :: 'd
  s_updatedAt :: 'd
  s_isActive :: bool

text \<open>\<open>Partial<T>\<close>: every key may be absent (\<open>None\<close>); a key that is present carries a value
  of the field's type.\<close>

record 'd shopPatch =
  sp_id :: "string option"
  sp_name :: "string option"
  sp_description :: "string option option"
  sp_owner :: "shopOwner option"
  sp_location :: "coordinates option"
  sp_trades :: "'d trade list option"
  sp_tags :: "string list option option"
  sp_createdAt :: "'d option"
  sp_updatedAt :: "'d option"
  sp_isActive :: "bool option"

record 'd tradePatch =
  tp_id :: "string option"
  tp_input :: "tradeItem option"
  tp_output :: "tradeItem option"
  tp_notes :: "string option option"
  tp_lastUpdated :: "'d option"
  tp_isActive :: "bool option"

record playerPatch =
  pp_ign :: "string option"
  pp_uuid :: "string option option"
  pp_notes :: "string option option"

record groupPatch =
  gp_id :: "string option"
  gp_name :: "string option"
  gp_members :: "player list option"
  gp_leader :: "player option option"
  gp_notes :: "string option option"

record 'd customItemPatch =
  cp_id :: "string option"
  cp_name :: "string option"
  cp_baseItemId :: "string option"
  cp_description :: "string option option"
  cp_createdAt :: "'d option"

text \<open>Data handed to \<open>addShop\<close>, \<open>addTrade\<close>, \<open>addGroup\<close> and \<open>addCustomItem\<close>: the entity
  without the fields the store fills in (\<open>Omit<Shop, 'id' | 'createdAt' | 'updatedAt'>\<close>
  and so on).\<close>

record 'd shopData =
  sd_name :: string
  sd_description :: "string option"
  sd_owner :: shopOwner
  sd_location :: coordinates
  sd_trades :: "'d trade list"
  sd_tags :: "string list option"
  sd_isActive :: bool

record tradeData =
  td_input :: tradeItem
  td_output :: tradeItem
  td_notes :: "string option"
  td_isActive :: bool

record groupData =
  gd_name :: string
  gd_members :: "player list"
  gd_leader :: "player option"
  gd_notes :: "string option"

record customItemData =
  cd_name :: string
  cd_baseItemId :: string
  cd_description :: "string option"


section \<open>The store\<close>

record priceRange =
  pr_min :: number
  pr_max :: number

record filterState =
  searchQuery :: string
  categories :: "string list"
  f_ownerType :: "ownerType option"
  hasStock :: "bool option"
  f_priceRange :: "priceRange option"

datatype sortField = SF_name | SF_price | SF_date | SF_distance
datatype sortDirection = asc | desc

record sortState =
  field :: sortField
  direction :: sortDirection

datatype viewMode = VM_list | VM_grid | VM_map

record 'd shopStore =
  shops :: "'d shop list"
  players :: "player list"
  groups :: "group list"
  customItems :: "'d customItem list"
  selectedShopId :: "string option"
  filter_state :: filterState
  sort_state :: sortState
  viewMode :: viewMode
  ledgerName :: string
  ledgerPath :: "string option"
  hasUnsavedChanges :: bool

text \<open>\<open>s.substring(start, end)\<close> for \<open>start \<le> end\<close>.\<close>

definition substring :: "nat \<Rightarrow> nat \<Rightarrow> string \<Rightarrow> string" where
  "substring start end s = take (end - start) (drop start s)"

text \<open>\<open>generateId = () => Math.random().toString(36).substring(2, 15)\<close>. The argument is the
  text \<open>Math.random().toString(36)\<close> of the random draw: \<open>0.i\<close> for the draw \<open>0.5\<close>.\<close>

definition generateId :: "string \<Rightarrow> string" where
  "generateId rnd = substring 2 15 rnd"

text \<open>In the store operations, \<open>now\<close> is the value of \<open>new Date()\<close> and \<open>rnd\<close> the random
  draw of \<open>generateId\<close>; where one call evaluates \<open>new Date()\<close> more than once (the trade
  operations), every evaluation is taken to read the same instant. Operations that return
  the fresh id return it with the new state.\<close>

definition addShop :: "string \<Rightarrow> 'd \<Rightarrow> 'd shopData \<Rightarrow> 'd shopStore \<Rightarrow> string \<times> 'd shopStore" where
  "addShop rnd now shopData state =
     (let id = generateId rnd;
          shop = \<lparr> s_id = id, s_name = sd_name shopData, description = sd_description shopData,
                   owner = sd_owner shopData, location = sd_location shopData,
                   trades = sd_trades shopData, tags = sd_tags shopData,
                   s_createdAt = now, s_updatedAt = now, s_isActive = sd_isActive shopData \<rparr>
      in (id, state\<lparr> shops := shops state @ [shop], hasUnsavedChanges := True \<rparr>))"

text \<open>\<open>{ ...shop, ...updates }\<close>: the keys present in the patch override the shop's.\<close>

definition spreadShop :: "'d shop \<Rightarrow> 'd shopPatch \<Rightarrow> 'd shop" where
  "spreadShop shop updates =
     \<lparr> s_id = (case sp_id updates of None \<Rightarrow> s_id shop | Some v \<Rightarrow> v),
       s_name = (case sp_name updates of None \<Rightarrow> s_name shop | Some v \<Rightarrow> v),
       description = (case sp_description updates of None \<Rightarrow> description shop | Some v \<Rightarrow> v),
       owner = (case sp_owner updates of None \<Rightarrow> owner shop | Some v \<Rightarrow> v),
       location = (case sp_location updates of None \<Rightarrow> location shop | Some v \<Rightarrow> v),
       trades = (case sp_trades updates of None \<Rightarrow> trades shop | Some v \<Rightarrow> v),
       tags = (case sp_tags updates of None \<Rightarrow> tags shop | Some v \<Rightarrow> v),
       s_createdAt = (case sp_createdAt updates of None \<Rightarrow> s_createdAt shop | Some v \<Rightarrow> v),
       s_updatedAt = (case sp_updatedAt updates of None \<Rightarrow> s_updatedAt shop | Some v \<Rightarrow> v),
       s_isActive = (case sp_isActive updates of None \<Rightarrow> s_isActive shop | Some v \<Rightarrow> v) \<rparr>"

definition updateShop :: "'d \<Rightarrow> string \<Rightarrow> 'd shopPatch \<Rightarrow> 'd shopStore \<Rightarrow> 'd shopStore" where
  "updateShop now ident updates state =
     state\<lparr> shops := map (\<lambda>shop. if s_id shop = ident
                                  then (spreadShop shop updates)\<lparr> s_updatedAt := now \<rparr>
                                  else shop) (shops state),
            hasUnsavedChanges := True \<rparr>"

definition deleteShop :: "string \<Rightarrow> 'd shopStore \<Rightarrow> 'd shopStore" where
  "deleteShop ident state =
     state\<lparr> shops := filter (\<lambda>shop. s_id shop \<noteq> ident) (shops state),
            selectedShopId := (if selectedShopId state = Some ident then None else selectedShopId state),
            hasUnsavedChanges := True \<rparr>"

definition getShop :: "string \<Rightarrow> 'd shopStore \<Rightarrow> 'd shop option" where
  "getShop ident state = find (\<lambda>shop. s_id shop = ident) (shops state)"

definition addTrade :: "string \<Rightarrow> 'd \<Rightarrow> string \<Rightarrow> tradeData \<Rightarrow> 'd shopStore \<Rightarrow> 'd shopStore" where
  "addTrade rnd now shopId tradeData state =
     (let trade = \<lparr> t_id = generateId rnd, t_input = td_input tradeData, t_output = td_output tradeData,
                    t_notes = td_notes tradeData, lastUpdated = now,
                    t_isActive = td_isActive tradeData \<rparr>
      in state\<lparr> shops := map (\<lambda>shop. if s_id shop = shopId
                                       then shop\<lparr> trades := trades shop @ [trade], s_updatedAt := now \<rparr>
                                       else shop) (shops state),
                 hasUnsavedChanges := True \<rparr>)"

definition spreadTrade :: "'d trade \<Rightarrow> 'd tradePatch \<Rightarrow> 'd trade" where
  "spreadTrade trade updates =
     \<lparr> t_id = (case tp_id updates of None \<Rightarrow> t_id trade | Some v \<Rightarrow> v),
       t_input = (case tp_input updates of None \<Rightarrow> t_input trade | Some v \<Rightarrow> v),
       t_output = (case tp_output updates of None \<Rightarrow> t_output trade | Some v \<Rightarrow> v),
       t_notes = (case tp_notes updates of None \<Rightarrow> t_notes trade | Some v \<Rightarrow> v),
       lastUpdated = (case tp_lastUpdated updates of None \<Rightarrow> lastUpdated trade | Some v \<Rightarrow> v),
       t_isActive = (case tp_isActive updates of None \<Rightarrow> t_isActive trade | Some v \<Rightarrow> v) \<rparr>"

definition updateTrade :: "'d \<Rightarrow> string \<Rightarrow> string \<Rightarrow> 'd tradePatch \<Rightarrow> 'd shopStore \<Rightarrow> 'd shopStore" where
  "updateTrade now shopId tradeId updates state =
     state\<lparr> shops := map (\<lambda>shop. if s_id shop = shopId
                then shop\<lparr> trades := map (\<lambda>trade. if t_id trade = tradeId
                                                  then (spreadTrade trade updates)\<lparr> lastUpdated := now \<rparr>
                                                  else trade) (trades shop),
                           s_updatedAt := now \<rparr>
                else shop) (shops state),
            hasUnsavedChanges := True \<rparr>"

definition deleteTrade :: "'d \<Rightarrow> string \<Rightarrow> string \<Rightarrow> 'd shopStore \<Rightarrow> 'd shopStore" where
  "deleteTrade now shopId tradeId state =
     state\<lparr> shops := map (\<lambda>shop. if s_id shop = shopId
                then shop\<lparr> trades := filter (\<lambda>trade. t_id trade \<noteq> tradeId) (trades shop),
                           s_updatedAt := now \<rparr>
                else shop) (shops state),
            hasUnsavedChanges := True \<rparr>"

definition addPlayer :: "player \<Rightarrow> 'd shopStore \<Rightarrow> 'd shopStore" where
  "addPlayer player state =
     (if list_ex (\<lambda>p. ign p = ign player) (players state)
      then state
      else state\<lparr> players := players state @ [player], hasUnsavedChanges := True \<rparr>)"

definition spreadPlayer :: "player \<Rightarrow> playerPatch \<Rightarrow> player" where
  "spreadPlayer player updates =
     \<lparr> ign = (case pp_ign updates of None \<Rightarrow> ign player | Some v \<Rightarrow> v),
       uuid = (case pp_uuid updates of None \<Rightarrow> uuid player | Some v \<Rightarrow> v),
       p_notes = (case pp_notes updates of None \<Rightarrow> p_notes player | Some v \<Rightarrow> v) \<rparr>"

definition updatePlayer :: "string \<Rightarrow> playerPatch \<Rightarrow> 'd shopStore \<Rightarrow> 'd shopStore" where
  "updatePlayer i updates state =
     state\<lparr> players := map (\<lambda>player. if ign player = i then spreadPlayer player updates else player)
                            (players state),
            hasUnsavedChanges := True \<rparr>"

definition deletePlayer :: "string \<Rightarrow> 'd shopStore \<Rightarrow> 'd shopStore" where
  "deletePlayer i state =
     state\<lparr> players := filter (\<lambda>player. ign player \<noteq> i) (players state),
            hasUnsavedChanges := True \<rparr>"

definition addGroup :: "string \<Rightarrow> groupData \<Rightarrow> 'd shopStore \<Rightarrow> string \<times> 'd shopStore" where
  "addGroup rnd groupData state =
     (let id = generateId rnd;
          grp = \<lparr> g_id = id, g_name = gd_name groupData, members = gd_members groupData,
                  leader = gd_leader groupData, g_notes = gd_notes groupData \<rparr>
      in (id, state\<lparr> groups := groups state @ [grp], hasUnsavedChanges := True \<rparr>))"

definition spreadGroup :: "group \<Rightarrow> groupPatch \<Rightarrow> group" where
  "spreadGroup grp updates =
     \<lparr> g_id = (case gp_id updates of None \<Rightarrow> g_id grp | Some v \<Rightarrow> v),
       g_name = (case gp_name updates of None \<Rightarrow> g_name grp | Some v \<Rightarrow> v),
       members = (case gp_members updates of None \<Rightarrow> members grp | Some v \<Rightarrow> v),
       leader = (case gp_leader updates of None \<Rightarrow> leader grp | Some v \<Rightarrow> v),
       g_notes = (case gp_notes updates of None \<Rightarrow> g_notes grp | Some v \<Rightarrow> v) \<rparr>"

definition updateGroup :: "string \<Rightarrow> groupPatch \<Rightarrow> 'd shopStore \<Rightarrow> 'd shopStore" where
  "updateGroup ident updates state =
     state\<lparr> groups := map (\<lambda>grp. if g_id grp = ident then spreadGroup grp updates else grp)
                           (groups state),
            hasUnsavedChanges := True \<rparr>"

definition deleteGroup :: "string \<Rightarrow> 'd shopStore \<Rightarrow> 'd shopStore" where
  "deleteGroup ident state =
     state\<lparr> groups := filter (\<lambda>grp. g_id grp \<noteq> ident) (groups state),
            hasUnsavedChanges := True \<rparr>"

definition addCustomItem :: "string \<Rightarrow> 'd \<Rightarrow> customItemData \<Rightarrow> 'd shopStore \<Rightarrow> string \<times> 'd shopStore" where
  "addCustomItem rnd now itemData state =
     (let id = ''custom_'' @ generateId rnd;
          item = \<lparr> c_id = id, c_name = cd_name itemData, baseItemId = cd_baseItemId itemData,
                   c_description = cd_description itemData, c_createdAt = now \<rparr>
      in (id, state\<lparr> customItems := customItems state @ [item], hasUnsavedChanges := True \<rparr>))"

definition spreadCustomItem :: "'d customItem \<Rightarrow> 'd customItemPatch \<Rightarrow> 'd customItem" where
  "spreadCustomItem item updates =
     \<lparr> c_id = (case cp_id updates of None \<Rightarrow> c_id item | Some v \<Rightarrow> v),
       c_name = (case cp_name updates of None \<Rightarrow> c_name item | Some v \<Rightarrow> v),
       baseItemId = (case cp_baseItemId updates of None \<Rightarrow> baseItemId item | Some v \<Rightarrow> v),
       c_description = (case cp_description updates of None \<Rightarrow> c_description item | Some v \<Rightarrow> v),
       c_createdAt = (case cp_createdAt updates of None \<Rightarrow> c_createdAt item | Some v \<Rightarrow> v) \<rparr>"

definition updateCustomItem :: "string \<Rightarrow> 'd customItemPatch \<Rightarrow> 'd shopStore \<Rightarrow> 'd shopStore" where
  "updateCustomItem ident updates state =
     state\<lparr> customItems := map (\<lambda>item. if c_id item = ident then spreadCustomItem item updates else item)
                                (customItems state),
            hasUnsavedChanges := True \<rparr>"

definition deleteCustomItem :: "string \<Rightarrow> 'd shopStore \<Rightarrow> 'd shopStore" where
  "deleteCustomItem ident state =
     state\<lparr> customItems := filter (\<lambda>item. c_id item \<noteq> ident) (customItems state),
            hasUnsavedChanges := True \<rparr>"

definition getCustomItem :: "string \<Rightarrow> 'd shopStore \<Rightarrow> 'd customItem option" where
  "getCustomItem ident state = find (\<lambda>item. c_id item = ident) (customItems state)"

definition setSelectedShop :: "string option \<Rightarrow> 'd shopStore \<Rightarrow> 'd shopStore" where
  "setSelectedShop ident state = state\<lparr> selectedShopId := ident \<rparr>"

definition importShops :: "'d shop list \<Rightarrow> 'd shopStore \<Rightarrow> 'd shopStore" where
  "importShops new_shops state = state\<lparr> shops := shops state @ new_shops \<rparr>"

definition exportShops :: "'d shopStore \<Rightarrow> 'd shop list" where
  "exportShops state = shops state"

definition clearAllData :: "'d shopStore \<Rightarrow> 'd shopStore" where
  "clearAllData state =
     state\<lparr> shops := [], players := [], groups := [], customItems := [],
            selectedShopId := None, hasUnsavedChanges := False \<rparr>"


definition setLedgerPath :: "string option \<Rightarrow> 'd shopStore \<Rightarrow> 'd shopStore" where
  "setLedgerPath path state = state\<lparr> ledgerPath := path \<rparr>"

definition setHasUnsavedChanges :: "bool \<Rightarrow> 'd shopStore \<Rightarrow> 'd shopStore" where
  "setHasUnsavedChanges hasChanges state = state\<lparr> hasUnsavedChanges := hasChanges \<rparr>"

text \<open>The four collections handed to \<open>loadLedgerData\<close>.\<close>

record 'd collections =
  d_shops :: "'d shop list"
  d_players :: "player list"
  d_groups :: "group list"
  d_customItems :: "'d customItem list"

text \<open>\<open>loadLedgerData(data, name?, path?)\<close>. An argument left out is \<open>None\<close>; the path, when
  given, is \<open>string | null\<close>, hence the nested option.\<close>

definition loadLedgerData ::
  "'d collections \<Rightarrow> string option \<Rightarrow> string option option \<Rightarrow> 'd shopStore \<Rightarrow> 'd shopStore" where
  "loadLedgerData data name path state =
     state\<lparr> shops := d_shops data,
            players := d_players data,
            groups := d_groups data,
            customItems := d_customItems data,
            selectedShopId := None,
            ledgerName := (case name of None \<Rightarrow> ledgerName state | Some n \<Rightarrow> n),
            ledgerPath := (case path of None \<Rightarrow> ledgerPath state | Some p \<Rightarrow> p),
            hasUnsavedChanges := False \<rparr>"


section \<open>The ledger file\<close>

text \<open>
  \<open>LedgerData\<close> as \<open>JSON.parse\<close> hands it over. The value is cast to the interface without
  a check, and the handlers guard every top-level key and every collection under \<open>data\<close>
  against absence, so each of these is optional here; the entities inside are taken as
  their interfaces declare them.
\<close>

record 'd ledgerPayload =
  ld_shops :: "'d shop list option"
  ld_players :: "player list option"
  ld_groups :: "group list option"
  ld_customItems :: "'d customItem list option"

record 'd ledgerData =
  l_version :: "string option"
  l_name :: "string option"
  l_createdAt :: "string option"
  l_updatedAt :: "string option"
  l_data :: "'d ledgerPayload option"






text \<open>What the \<open>try\<close> block of a handler can throw: \<open>JSON.parse\<close> its \<open>SyntaxError\<close>, the
  format check \<open>Error('Invalid ledger file format')\<close>, and the runtime a \<open>TypeError\<close> (a
  property read on \<open>null\<close> or \<open>undefined\<close>, a call of something that is no function).\<close>

datatype error = SyntaxError | InvalidLedgerFormat | TypeError

text \<open>\<open>!v\<close> for an optional string: \<open>undefined\<close> and the empty string are falsy.\<close>

definition falsy :: "string option \<Rightarrow> bool" where
  "falsy v = (case v of None \<Rightarrow> True | Some s \<Rightarrow> s = [])"

text \<open>\<open>v || fallback\<close> for an optional array (every array is truthy) and an optional
  string.\<close>

definition orElse :: "'a list option \<Rightarrow> 'a list \<Rightarrow> 'a list" where
  "orElse v fallback = (case v of None \<Rightarrow> fallback | Some xs \<Rightarrow> xs)"


text \<open>The conversion of the date strings back to \<open>Date\<close> objects; \<open>newDate\<close> is the
  runtime's \<open>new Date(string)\<close>.\<close>

definition processTrade :: "(string \<Rightarrow> 'd) \<Rightarrow> string trade \<Rightarrow> 'd trade" where
  "processTrade newDate trade =
     \<lparr> t_id = t_id trade, t_input = t_input trade, t_output = t_output trade,
       t_notes = t_notes trade, lastUpdated = newDate (lastUpdated trade),
       t_isActive = t_isActive trade \<rparr>"

definition processShop :: "(string \<Rightarrow> 'd) \<Rightarrow> string shop \<Rightarrow> 'd shop" where
  "processShop newDate shop =
     \<lparr> s_id = s_id shop, s_name = s_name shop, description = description shop,
       owner = owner shop, location = location shop,
       trades = map (processTrade newDate) (trades shop), tags = tags shop,
       s_createdAt = newDate (s_createdAt shop),
       s_updatedAt = newDate (s_updatedAt shop),
       s_isActive = s_isActive shop \<rparr>"

definition processCustomItem :: "(string \<Rightarrow> 'd) \<Rightarrow> string customItem \<Rightarrow> 'd customItem" where
  "processCustomItem newDate item =
     \<lparr> c_id = c_id item, c_name = c_name item, baseItemId = baseItemId item,
       c_description = c_description item, c_createdAt = newDate (c_createdAt item) \<rparr>"

text \<open>
  The decoding that \<open>handleFileOpen\<close> and \<open>handleFileImport\<close> both start with, word for
  word the same in the two handlers: \<open>JSON.parse\<close>, the format check, the dates. The
  argument is the result of \<open>JSON.parse\<close>, \<open>None\<close> when it throws. Both operands of the
  format check \<open>!data.version || !data.data\<close> lead to the same \<open>throw\<close>.

  \<open>processLedger\<close> is the decoding on payloads that have the shape of \<open>LedgerData\<close>, which is
  what the store and the merge work on. The decoding of an arbitrary JSON value, with the
  falsy values and the type errors of the runtime, is \<open>decodeJson\<close> below; the two agree on
  the payloads of this shape (lemma \<open>decodeJson_typed\<close>).
\<close>

definition processLedger :: "(string \<Rightarrow> 'd) \<Rightarrow> string ledgerData option \<Rightarrow> error + 'd collections" where
  "processLedger newDate parsed =
     (case parsed of
        None \<Rightarrow> Inl SyntaxError
      | Some ledger \<Rightarrow>
          (case l_data ledger of
             None \<Rightarrow> Inl InvalidLedgerFormat
           | Some d \<Rightarrow>
               if falsy (l_version ledger) then Inl InvalidLedgerFormat
               else Inr \<lparr> d_shops = map (processShop newDate) (orElse (ld_shops d) []),
                          d_players = orElse (ld_players d) [],
                          d_groups = orElse (ld_groups d) [],
                          d_customItems = map (processCustomItem newDate) (orElse (ld_customItems d) []) \<rparr>))"


section \<open>Decoding an arbitrary JSON value\<close>

text \<open>What \<open>JSON.parse\<close> can return: \<open>null\<close>, a boolean, a finite number, a string, an array or
  an object, whose keys are distinct and in the order of the runtime.\<close>

datatype json =
    JNull
  | JBool bool
  | JNumber number
  | JString string
  | JArray "json list"
  | JObject "(string \<times> json) list"

text \<open>The values the decoding builds: a value of the payload left as it is, a \<open>Date\<close>, an
  array, or an object literal.\<close>

datatype 'd jsvalue =
    Raw json
  | DateValue 'd
  | Array "'d jsvalue list"
  | Object "(string \<times> 'd jsvalue) list"

text \<open>The property read \<open>v.key\<close>, for the keys that the decoding reads (\<open>version\<close>, \<open>data\<close>,
  \<open>name\<close>, \<open>shops\<close>, \<open>players\<close>, \<open>groups\<close>, \<open>customItems\<close>, \<open>createdAt\<close>, \<open>updatedAt\<close>, \<open>trades\<close>,
  \<open>lastUpdated\<close>): on \<open>null\<close> it throws; an object gives its own property or \<open>undefined\<close>
  (\<open>None\<close>); a boolean, number, string or array has none of these properties.\<close>

definition getProp :: "string \<Rightarrow> json \<Rightarrow> error + json option" where
  "getProp key v =
     (case v of
        JNull \<Rightarrow> Inl TypeError
      | JObject kvs \<Rightarrow> Inr (map_of kvs key)
      | _ \<Rightarrow> Inr None)"

text \<open>Truthiness: \<open>null\<close>, \<open>false\<close>, \<open>0\<close> and the empty string are falsy, as is \<open>undefined\<close>; every
  array and every object is truthy.\<close>

fun truthy :: "json \<Rightarrow> bool" where
  "truthy JNull = False"
| "truthy (JBool b) = b"
| "truthy (JNumber n) = (n \<noteq> 0)"
| "truthy (JString s) = (s \<noteq> [])"
| "truthy (JArray xs) = True"
| "truthy (JObject kvs) = True"

text \<open>\<open>v || []\<close>\<close>

definition orEmptyArray :: "json option \<Rightarrow> json" where
  "orEmptyArray v =
     (case v of None \<Rightarrow> JArray [] | Some x \<Rightarrow> if truthy x then x else JArray [])"

text \<open>The decimal text of an array index.\<close>

fun decimal :: "nat \<Rightarrow> string" where
  "decimal n =
     (if n < 10 then [''0123456789'' ! n]
      else decimal (n div 10) @ [''0123456789'' ! (n mod 10)])"

declare decimal.simps [simp del]

text \<open>The spread \<open>{ ...v }\<close> of a JSON value in an object literal: the own enumerable
  properties of an object, the indexed elements of an array, the indexed characters of a
  string, nothing for \<open>null\<close>, a boolean or a number.\<close>

definition spread :: "json \<Rightarrow> (string \<times> 'd jsvalue) list" where
  "spread v =
     (case v of
        JObject kvs \<Rightarrow> map (\<lambda>kv. (fst kv, Raw (snd kv))) kvs
      | JArray xs \<Rightarrow> zip (map decimal [0..<length xs]) (map Raw xs)
      | JString cs \<Rightarrow> zip (map decimal [0..<length cs]) (map (\<lambda>c. Raw (JString [c])) cs)
      | _ \<Rightarrow> [])"

text \<open>A property \<open>key: v\<close> written after the spread: it takes the place of a property of
  that name, and is added at the end when there is none.\<close>

fun setProp :: "string \<Rightarrow> 'v \<Rightarrow> (string \<times> 'v) list \<Rightarrow> (string \<times> 'v) list" where
  "setProp key v [] = [(key, v)]"
| "setProp key v (kv # rest) =
     (if fst kv = key then (key, v) # rest else kv # setProp key v rest)"

text \<open>\<open>xs.map(f)\<close> for a callback that can throw: the first exception ends the loop.\<close>

fun mapThrowing :: "('a \<Rightarrow> error + 'b) \<Rightarrow> 'a list \<Rightarrow> error + 'b list" where
  "mapThrowing f [] = Inr []"
| "mapThrowing f (x # xs) =
     (case f x of
        Inl e \<Rightarrow> Inl e
      | Inr y \<Rightarrow> (case mapThrowing f xs of Inl e \<Rightarrow> Inl e | Inr ys \<Rightarrow> Inr (y # ys)))"

text \<open>\<open>v.map(f)\<close> on a JSON value: only an array has the method \<open>map\<close>; on anything else the
  call throws.\<close>

definition arrayMap :: "(json \<Rightarrow> error + 'b) \<Rightarrow> json \<Rightarrow> error + 'b list" where
  "arrayMap f v = (case v of JArray xs \<Rightarrow> mapThrowing f xs | _ \<Rightarrow> Inl TypeError)"

text \<open>
  The callbacks of the date conversion. Here \<open>newDate\<close> is the runtime's \<open>new Date(v)\<close> on a
  JSON value or \<open>undefined\<close>; it is \<open>None\<close> when the constructor throws, which it can when it
  converts an object to a primitive.
\<close>

definition constructDate :: "(json option \<Rightarrow> 'd option) \<Rightarrow> json option \<Rightarrow> error + 'd" where
  "constructDate newDate v = (case newDate v of None \<Rightarrow> Inl TypeError | Some d \<Rightarrow> Inr d)"

text \<open>Sequencing of statements that can throw: the first exception is the result.\<close>

definition andThen :: "error + 'a \<Rightarrow> ('a \<Rightarrow> error + 'b) \<Rightarrow> error + 'b" where
  "andThen r f = (case r of Inl e \<Rightarrow> Inl e | Inr x \<Rightarrow> f x)"

definition decodeTrade :: "(json option \<Rightarrow> 'd option) \<Rightarrow> json \<Rightarrow> error + 'd jsvalue" where
  "decodeTrade newDate trade =
     andThen (getProp ''lastUpdated'' trade) (\<lambda>l.
     andThen (constructDate newDate l) (\<lambda>d.
       Inr (Object (setProp ''lastUpdated'' (DateValue d) (spread trade)))))"

text \<open>\<open>shop.trades.map(...)\<close>: the read of \<open>map\<close> throws when \<open>shop.trades\<close> is \<open>undefined\<close>.\<close>

definition tradesOf :: "json \<Rightarrow> error + json" where
  "tradesOf shop =
     andThen (getProp ''trades'' shop) (\<lambda>ts. case ts of None \<Rightarrow> Inl TypeError | Some t \<Rightarrow> Inr t)"

definition decodeShop :: "(json option \<Rightarrow> 'd option) \<Rightarrow> json \<Rightarrow> error + 'd jsvalue" where
  "decodeShop newDate shop =
     andThen (getProp ''createdAt'' shop) (\<lambda>c.
     andThen (constructDate newDate c) (\<lambda>created.
     andThen (getProp ''updatedAt'' shop) (\<lambda>u.
     andThen (constructDate newDate u) (\<lambda>updated.
     andThen (tradesOf shop) (\<lambda>ts.
     andThen (arrayMap (decodeTrade newDate) ts) (\<lambda>trades'.
       Inr (Object (setProp ''trades'' (Array trades')
              (setProp ''updatedAt'' (DateValue updated)
                 (setProp ''createdAt'' (DateValue created) (spread shop)))))))))))"

definition decodeCustomItem :: "(json option \<Rightarrow> 'd option) \<Rightarrow> json \<Rightarrow> error + 'd jsvalue" where
  "decodeCustomItem newDate item =
     andThen (getProp ''createdAt'' item) (\<lambda>c.
     andThen (constructDate newDate c) (\<lambda>d.
       Inr (Object (setProp ''createdAt'' (DateValue d) (spread item)))))"

text \<open>\<open>processedData\<close>: the converted shops and custom items, and the players and groups as
  they come.\<close>

record 'd decoded =
  dec_shops :: "'d jsvalue list"
  dec_players :: json
  dec_groups :: json
  dec_customItems :: "'d jsvalue list"

text \<open>
  The statements of the \<open>try\<close> block from \<open>JSON.parse\<close> to the end of the date conversion
  (lines 178 to 202 of \<open>handleFileOpen\<close>, 249 to 270 of \<open>handleFileImport\<close>), on the result
  of \<open>JSON.parse\<close>: \<open>None\<close> when the parse throws. The check \<open>!data.version || !data.data\<close>
  reads \<open>data.data\<close> only when \<open>data.version\<close> is truthy.
\<close>

text \<open>\<open>if (!v) throw new Error('Invalid ledger file format')\<close> on a property that was read.\<close>

definition required :: "json option \<Rightarrow> error + json" where
  "required v =
     (case v of
        None \<Rightarrow> Inl InvalidLedgerFormat
      | Some x \<Rightarrow> if truthy x then Inr x else Inl InvalidLedgerFormat)"

definition decodeJson :: "(json option \<Rightarrow> 'd option) \<Rightarrow> json option \<Rightarrow> error + 'd decoded" where
  "decodeJson newDate parsed =
     (case parsed of
        None \<Rightarrow> Inl SyntaxError
      | Some payload \<Rightarrow>
          andThen (getProp ''version'' payload) (\<lambda>version.
          andThen (required version) (\<lambda>_.
          andThen (getProp ''data'' payload) (\<lambda>data_v.
          andThen (required data_v) (\<lambda>d.
          andThen (getProp ''shops'' d) (\<lambda>shops_v.
          andThen (arrayMap (decodeShop newDate) (orEmptyArray shops_v)) (\<lambda>shops'.
          andThen (getProp ''players'' d) (\<lambda>players_v.
          andThen (getProp ''groups'' d) (\<lambda>groups_v.
          andThen (getProp ''customItems'' d) (\<lambda>items_v.
          andThen (arrayMap (decodeCustomItem newDate) (orEmptyArray items_v)) (\<lambda>items'.
            Inr \<lparr> dec_shops = shops', dec_players = orEmptyArray players_v,
                  dec_groups = orEmptyArray groups_v, dec_customItems = items' \<rparr>)))))))))))"

section \<open>The ledger manager\<close>

datatype resolution = R_keep | R_replace | R_skip

text \<open>\<open>MergeCollision\<close>: the tag \<open>type\<close> fixes the type of \<open>existing\<close> and \<open>incoming\<close>, which
  are the two arguments of each constructor.\<close>

datatype 'd collisionRecords =
    OfShop "'d shop" "'d shop"
  | OfPlayer player player
  | OfGroup group group
  | OfCustomItem "'d customItem" "'d customItem"

record 'd mergeCollision =
  records :: "'d collisionRecords"
  resolution :: resolution

record 'd mergePreview =
  newShops :: "'d shop list"
  newPlayers :: "player list"
  newGroups :: "group list"
  newCustomItems :: "'d customItem list"
  collisions :: "'d mergeCollision list"

text \<open>The component's own state.\<close>

record 'd ledgerManager =
  isOpen :: bool
  showNewDialog :: bool
  showImportDialog :: bool
  newLedgerName :: string
  mergePreview :: "'d mergePreview option"
  importError :: "string option"

record 'd app =
  store :: "'d shopStore"
  ui :: "'d ledgerManager"

text \<open>
  The runtime's \<open>String.prototype.toLowerCase\<close> is a parameter, \<open>lower\<close>, of the handler that
  calls it. On a text of ASCII characters it is the function \<open>toLowerCase\<close> below, which
  maps the letters \<open>A\<close> to \<open>Z\<close> to \<open>a\<close> to \<open>z\<close> and leaves every other character as it is;
  the examples, whose igns are ASCII, use it.
\<close>

definition charToLower :: "char \<Rightarrow> char" where
  "charToLower c =
     (case map_of (zip ''ABCDEFGHIJKLMNOPQRSTUVWXYZ'' ''abcdefghijklmnopqrstuvwxyz'') c of
        None \<Rightarrow> c
      | Some l \<Rightarrow> l)"

definition toLowerCase :: "string \<Rightarrow> string" where
  "toLowerCase s = map charToLower s"


text \<open>The four classification loops of \<open>handleFileImport\<close>. Each takes the current
  collection, the incoming records still to visit, and the arrays \<open>collisions\<close> and
  \<open>new...\<close> as filled so far (\<open>push\<close> appends).\<close>

fun checkShops ::
  "'d shop list \<Rightarrow> 'd shop list \<Rightarrow> 'd mergeCollision list \<times> 'd shop list
     \<Rightarrow> 'd mergeCollision list \<times> 'd shop list" where
  "checkShops current [] (cs, new) = (cs, new)"
| "checkShops current (incoming # rest) (cs, new) =
     (case find (\<lambda>s. s_id s = s_id incoming) current of
        Some existing \<Rightarrow>
          checkShops current rest
            (cs @ [\<lparr> records = OfShop existing incoming, resolution = R_skip \<rparr>], new)
      | None \<Rightarrow> checkShops current rest (cs, new @ [incoming]))"

fun checkPlayers ::
  "(string \<Rightarrow> string) \<Rightarrow> player list \<Rightarrow> player list \<Rightarrow> 'd mergeCollision list \<times> player list
     \<Rightarrow> 'd mergeCollision list \<times> player list" where
  "checkPlayers lower current [] (cs, new) = (cs, new)"
| "checkPlayers lower current (incoming # rest) (cs, new) =
     (case find (\<lambda>p. lower (ign p) = lower (ign incoming)) current of
        Some existing \<Rightarrow>
          checkPlayers lower current rest
            (cs @ [\<lparr> records = OfPlayer existing incoming, resolution = R_skip \<rparr>], new)
      | None \<Rightarrow> checkPlayers lower current rest (cs, new @ [incoming]))"

fun checkGroups ::
  "group list \<Rightarrow> group list \<Rightarrow> 'd mergeCollision list \<times> group list
     \<Rightarrow> 'd mergeCollision list \<times> group list" where
  "checkGroups current [] (cs, new) = (cs, new)"
| "checkGroups current (incoming # rest) (cs, new) =
     (case find (\<lambda>g. g_id g = g_id incoming) current of
        Some existing \<Rightarrow>
          checkGroups current rest
            (cs @ [\<lparr> records = OfGroup existing incoming, resolution = R_skip \<rparr>], new)
      | None \<Rightarrow> checkGroups current rest (cs, new @ [incoming]))"

fun checkCustomItems ::
  "'d customItem list \<Rightarrow> 'd customItem list \<Rightarrow> 'd mergeCollision list \<times> 'd customItem list
     \<Rightarrow> 'd mergeCollision list \<times> 'd customItem list" where
  "checkCustomItems current [] (cs, new) = (cs, new)"
| "checkCustomItems current (incoming # rest) (cs, new) =
     (case find (\<lambda>c. c_id c = c_id incoming) current of
        Some existing \<Rightarrow>
          checkCustomItems current rest
            (cs @ [\<lparr> records = OfCustomItem existing incoming, resolution = R_skip \<rparr>], new)
      | None \<Rightarrow> checkCustomItems current rest (cs, new @ [incoming]))"

text \<open>Collision detection: the block of \<open>handleFileImport\<close> between the date processing
  and \<open>setMergePreview\<close>, on the store's collections and the decoded incoming ones.\<close>

definition detectCollisions ::
  "(string \<Rightarrow> string) \<Rightarrow> 'd shopStore \<Rightarrow> 'd collections \<Rightarrow> 'd mergePreview" where
  "detectCollisions lower state incoming =
     (let (cs1, new_shops) = checkShops (shops state) (d_shops incoming) ([], []);
          (cs2, new_players) = checkPlayers lower (players state) (d_players incoming) (cs1, []);
          (cs3, new_groups) = checkGroups (groups state) (d_groups incoming) (cs2, []);
          (cs4, new_customItems) =
             checkCustomItems (customItems state) (d_customItems incoming) (cs3, [])
      in \<lparr> newShops = new_shops, newPlayers = new_players, newGroups = new_groups,
            newCustomItems = new_customItems, collisions = cs4 \<rparr>)"

definition handleFileImport ::
  "(string \<Rightarrow> string) \<Rightarrow> (string \<Rightarrow> 'd) \<Rightarrow> string ledgerData option option \<Rightarrow> 'd app \<Rightarrow> 'd app" where
  "handleFileImport lower newDate file a =
     (case file of
        None \<Rightarrow> a
      | Some parsed \<Rightarrow>
          (case processLedger newDate parsed of
             Inl e \<Rightarrow>
               a\<lparr> ui := (ui a)\<lparr> importError := Some ''Failed to parse ledger file. Please ensure it is a valid ledger JSON file.'',
                                 showImportDialog := True,
                                 isOpen := False \<rparr> \<rparr>
           | Inr incoming \<Rightarrow>
               a\<lparr> ui := (ui a)\<lparr> mergePreview := Some (detectCollisions lower (store a) incoming),
                                 showImportDialog := True,
                                 importError := None,
                                 isOpen := False \<rparr> \<rparr>))"

text \<open>\<open>updateCollisionResolution(index, resolution)\<close>. The dialog calls it with the index of a
  listed collision; for any other index the assignment throws in the source and no state
  is set.\<close>

definition updateCollisionResolution :: "nat \<Rightarrow> resolution \<Rightarrow> 'd app \<Rightarrow> 'd app" where
  "updateCollisionResolution index res a =
     (case mergePreview (ui a) of
        None \<Rightarrow> a
      | Some mp \<Rightarrow>
          if index < length (collisions mp)
          then a\<lparr> ui := (ui a)\<lparr> mergePreview :=
                   Some (mp\<lparr> collisions := (collisions mp)[index := (collisions mp ! index)\<lparr> resolution := res \<rparr>] \<rparr>) \<rparr> \<rparr>
          else a)"

text \<open>\<open>Array.prototype.findIndex\<close>; \<open>None\<close> stands for the result \<open>-1\<close>.\<close>

fun findIndex :: "('a \<Rightarrow> bool) \<Rightarrow> 'a list \<Rightarrow> nat option" where
  "findIndex P [] = None"
| "findIndex P (x # xs) = (if P x then Some 0 else map_option Suc (findIndex P xs))"

text \<open>\<open>const idx = final.findIndex(P); if (idx !== -1) final[idx] = incoming\<close>\<close>

definition replaceFirst :: "('a \<Rightarrow> bool) \<Rightarrow> 'a \<Rightarrow> 'a list \<Rightarrow> 'a list" where
  "replaceFirst P incoming final =
     (case findIndex P final of None \<Rightarrow> final | Some idx \<Rightarrow> final[idx := incoming])"

text \<open>The body of the loop over the collisions in \<open>confirmImport\<close>, on the four \<open>final...\<close>
  arrays.\<close>

definition applyResolution :: "'d mergeCollision \<Rightarrow> 'd collections \<Rightarrow> 'd collections" where
  "applyResolution collision final =
     (if resolution collision = R_replace then
        (case records collision of
           OfShop existing incoming \<Rightarrow>
             final\<lparr> d_shops := replaceFirst (\<lambda>s. s_id s = s_id existing) incoming (d_shops final) \<rparr>
         | OfPlayer existing incoming \<Rightarrow>
             final\<lparr> d_players := replaceFirst (\<lambda>p. ign p = ign existing) incoming (d_players final) \<rparr>
         | OfGroup existing incoming \<Rightarrow>
             final\<lparr> d_groups := replaceFirst (\<lambda>g. g_id g = g_id existing) incoming (d_groups final) \<rparr>
         | OfCustomItem existing incoming \<Rightarrow>
             final\<lparr> d_customItems :=
                      replaceFirst (\<lambda>c. c_id c = c_id existing) incoming (d_customItems final) \<rparr>)
      else final)"

text \<open>The four final collections that \<open>confirmImport\<close> computes from the store and the
  preview, before it installs them.\<close>

definition mergedCollections :: "'d shopStore \<Rightarrow> 'd mergePreview \<Rightarrow> 'd collections" where
  "mergedCollections state mp =
     fold applyResolution (collisions mp)
       \<lparr> d_shops = shops state @ newShops mp,
         d_players = players state @ newPlayers mp,
         d_groups = groups state @ newGroups mp,
         d_customItems = customItems state @ newCustomItems mp \<rparr>"

definition confirmImport :: "'d app \<Rightarrow> 'd app" where
  "confirmImport a =
     (case mergePreview (ui a) of
        None \<Rightarrow> a
      | Some mp \<Rightarrow>
          a\<lparr> store := setHasUnsavedChanges True
                         (loadLedgerData (mergedCollections (store a) mp) None None (store a)),
             ui := (ui a)\<lparr> showImportDialog := False, mergePreview := None \<rparr> \<rparr>)"


section \<open>Notions used to state the properties\<close>



text \<open>The incoming record of a collision carries the key of the existing one: the id, or
  for a player the lower-cased ign.\<close>

definition keysMatch :: "(string \<Rightarrow> string) \<Rightarrow> 'd mergeCollision \<Rightarrow> bool" where
  "keysMatch lower collision =
     (case records collision of
        OfShop existing incoming \<Rightarrow> s_id existing = s_id incoming
      | OfPlayer existing incoming \<Rightarrow> lower (ign existing) = lower (ign incoming)
      | OfGroup existing incoming \<Rightarrow> g_id existing = g_id incoming
      | OfCustomItem existing incoming \<Rightarrow> c_id existing = c_id incoming)"

text \<open>The resolutions chosen in the dialog, in the order made: each a call of
  \<open>updateCollisionResolution\<close> with an index and a resolution.\<close>

definition resolveAll :: "(nat \<times> resolution) list \<Rightarrow> 'd app \<Rightarrow> 'd app" where
  "resolveAll edits a = fold (\<lambda>e. updateCollisionResolution (fst e) (snd e)) edits a"













text \<open>When the decoding of a JSON value goes through. A key of the payload is missing or
  falsy; a trade, a shop and a custom item can be converted; a collection is absent or
  falsy, or an array of entries that can be converted.\<close>

definition lookup :: "string \<Rightarrow> json \<Rightarrow> json option" where
  "lookup key v = (case v of JObject kvs \<Rightarrow> map_of kvs key | _ \<Rightarrow> None)"

definition missingOrFalsy :: "string \<Rightarrow> json \<Rightarrow> bool" where
  "missingOrFalsy key v = (case lookup key v of None \<Rightarrow> True | Some x \<Rightarrow> \<not> truthy x)"

definition tradeOk :: "(json option \<Rightarrow> 'd option) \<Rightarrow> json \<Rightarrow> bool" where
  "tradeOk newDate trade = (trade \<noteq> JNull \<and> newDate (lookup ''lastUpdated'' trade) \<noteq> None)"

definition shopOk :: "(json option \<Rightarrow> 'd option) \<Rightarrow> json \<Rightarrow> bool" where
  "shopOk newDate shop =
     (shop \<noteq> JNull
      \<and> newDate (lookup ''createdAt'' shop) \<noteq> None
      \<and> newDate (lookup ''updatedAt'' shop) \<noteq> None
      \<and> (case lookup ''trades'' shop of
            Some (JArray ts) \<Rightarrow> list_all (tradeOk newDate) ts
          | _ \<Rightarrow> False))"

definition customItemOk :: "(json option \<Rightarrow> 'd option) \<Rightarrow> json \<Rightarrow> bool" where
  "customItemOk newDate item = (item \<noteq> JNull \<and> newDate (lookup ''createdAt'' item) \<noteq> None)"

definition collectionOk :: "(json \<Rightarrow> bool) \<Rightarrow> json option \<Rightarrow> bool" where
  "collectionOk ok v =
     (case v of
        None \<Rightarrow> True
      | Some x \<Rightarrow>
          if truthy x then (case x of JArray xs \<Rightarrow> list_all ok xs | _ \<Rightarrow> False) else True)"

text \<open>
  A payload of the shape of \<open>LedgerData\<close> as a JSON value, and the collections decoded from
  it as values: an optional key is present when the field is.
\<close>

definition optional :: "string \<Rightarrow> ('a \<Rightarrow> 'v) \<Rightarrow> 'a option \<Rightarrow> (string \<times> 'v) list" where
  "optional key f v = (case v of None \<Rightarrow> [] | Some x \<Rightarrow> [(key, f x)])"

definition player_json :: "player \<Rightarrow> json" where
  "player_json p =
     JObject ([(''ign'', JString (ign p))]
              @ optional ''uuid'' JString (uuid p) @ optional ''notes'' JString (p_notes p))"

definition group_json :: "group \<Rightarrow> json" where
  "group_json g =
     JObject ([(''id'', JString (g_id g)), (''name'', JString (g_name g)),
               (''members'', JArray (map player_json (members g)))]
              @ optional ''leader'' player_json (leader g) @ optional ''notes'' JString (g_notes g))"

definition owner_json :: "shopOwner \<Rightarrow> json" where
  "owner_json ow =
     JObject ([(''type'', JString (case o_type ow of individual \<Rightarrow> ''individual'' | group \<Rightarrow> ''group''))]
              @ optional ''player'' player_json (o_player ow)
              @ optional ''group'' group_json (o_group ow))"

definition unit_json :: "quantityUnit \<Rightarrow> json" where
  "unit_json u =
     JString (case u of U_item \<Rightarrow> ''item'' | U_stack \<Rightarrow> ''stack'' | U_ci \<Rightarrow> ''ci'' | U_cs \<Rightarrow> ''cs''
              | U_sc \<Rightarrow> ''sc'' | U_dc \<Rightarrow> ''dc'' | U_i \<Rightarrow> ''i'' | U_d \<Rightarrow> ''d'')"

definition quantity_json :: "quantity \<Rightarrow> json" where
  "quantity_json q = JObject [(''amount'', JNumber (amount q)), (''unit'', unit_json (unit q))]"

definition enchantment_json :: "appliedEnchantment \<Rightarrow> json" where
  "enchantment_json e =
     JObject [(''enchantmentId'', JString (enchantmentId e)), (''level'', JNumber (level e))]"

definition tradeItem_json :: "tradeItem \<Rightarrow> json" where
  "tradeItem_json ti =
     JObject ([(''itemId'', JString (itemId ti)), (''quantity'', quantity_json (quantity ti))]
              @ optional ''enchantments'' (\<lambda>es. JArray (map enchantment_json es)) (enchantments ti)
              @ optional ''customName'' JString (customName ti))"

definition coordinates_json :: "coordinates \<Rightarrow> json" where
  "coordinates_json c =
     JObject [(''x'', JNumber (coord_x c)), (''y'', JNumber (coord_y c)), (''z'', JNumber (coord_z c))]"

definition trade_json :: "string trade \<Rightarrow> json" where
  "trade_json t =
     JObject ([(''id'', JString (t_id t)), (''input'', tradeItem_json (t_input t)),
               (''output'', tradeItem_json (t_output t))]
              @ optional ''notes'' JString (t_notes t)
              @ [(''lastUpdated'', JString (lastUpdated t)), (''isActive'', JBool (t_isActive t))])"

definition shop_json :: "string shop \<Rightarrow> json" where
  "shop_json sh =
     JObject ([(''id'', JString (s_id sh)), (''name'', JString (s_name sh))]
              @ optional ''description'' JString (description sh)
              @ [(''owner'', owner_json (owner sh)), (''location'', coordinates_json (location sh)),
                 (''trades'', JArray (map trade_json (trades sh)))]
              @ optional ''tags'' (\<lambda>ts. JArray (map JString ts)) (tags sh)
              @ [(''createdAt'', JString (s_createdAt sh)), (''updatedAt'', JString (s_updatedAt sh)),
                 (''isActive'', JBool (s_isActive sh))])"

definition customItem_json :: "string customItem \<Rightarrow> json" where
  "customItem_json c =
     JObject ([(''id'', JString (c_id c)), (''name'', JString (c_name c)),
               (''baseItemId'', JString (baseItemId c))]
              @ optional ''description'' JString (c_description c)
              @ [(''createdAt'', JString (c_createdAt c))])"

definition payload_json :: "string ledgerPayload \<Rightarrow> json" where
  "payload_json d =
     JObject (optional ''shops'' (\<lambda>xs. JArray (map shop_json xs)) (ld_shops d)
              @ optional ''players'' (\<lambda>xs. JArray (map player_json xs)) (ld_players d)
              @ optional ''groups'' (\<lambda>xs. JArray (map group_json xs)) (ld_groups d)
              @ optional ''customItems'' (\<lambda>xs. JArray (map customItem_json xs)) (ld_customItems d))"

definition ledger_json :: "string ledgerData \<Rightarrow> json" where
  "ledger_json l =
     JObject (optional ''version'' JString (l_version l)
              @ optional ''name'' JString (l_name l)
              @ optional ''createdAt'' JString (l_createdAt l)
              @ optional ''updatedAt'' JString (l_updatedAt l)
              @ optional ''data'' payload_json (l_data l))"

definition trade_value :: "'d trade \<Rightarrow> 'd jsvalue" where
  "trade_value t =
     Object ([(''id'', Raw (JString (t_id t))), (''input'', Raw (tradeItem_json (t_input t))),
              (''output'', Raw (tradeItem_json (t_output t)))]
             @ optional ''notes'' (\<lambda>n. Raw (JString n)) (t_notes t)
             @ [(''lastUpdated'', DateValue (lastUpdated t)),
                (''isActive'', Raw (JBool (t_isActive t)))])"

definition shop_value :: "'d shop \<Rightarrow> 'd jsvalue" where
  "shop_value sh =
     Object ([(''id'', Raw (JString (s_id sh))), (''name'', Raw (JString (s_name sh)))]
             @ optional ''description'' (\<lambda>x. Raw (JString x)) (description sh)
             @ [(''owner'', Raw (owner_json (owner sh))),
                (''location'', Raw (coordinates_json (location sh))),
                (''trades'', Array (map trade_value (trades sh)))]
             @ optional ''tags'' (\<lambda>ts. Raw (JArray (map JString ts))) (tags sh)
             @ [(''createdAt'', DateValue (s_createdAt sh)), (''updatedAt'', DateValue (s_updatedAt sh)),
                (''isActive'', Raw (JBool (s_isActive sh)))])"

definition customItem_value :: "'d customItem \<Rightarrow> 'd jsvalue" where
  "customItem_value c =
     Object ([(''id'', Raw (JString (c_id c))), (''name'', Raw (JString (c_name c))),
              (''baseItemId'', Raw (JString (baseItemId c)))]
             @ optional ''description'' (\<lambda>x. Raw (JString x)) (c_description c)
             @ [(''createdAt'', DateValue (c_createdAt c))])"

definition collections_decoded :: "'d collections \<Rightarrow> 'd decoded" where
  "collections_decoded c =
     \<lparr> dec_shops = map shop_value (d_shops c),
       dec_players = JArray (map player_json (d_players c)),
       dec_groups = JArray (map group_json (d_groups c)),
       dec_customItems = map customItem_value (d_customItems c) \<rparr>"


section \<open>Initial state and example data\<close>

text \<open>The store as created under Tauri (\<open>createEmptyData\<close> and the defaults that follow
  it), and the component's \<open>useState\<close> defaults.\<close>

definition initialStore :: "'d shopStore" where
  "initialStore =
     \<lparr> shops = [], players = [], groups = [], customItems = [],
       selectedShopId = None,
       filter_state = \<lparr> searchQuery = [], categories = [], f_ownerType = None,
                        hasStock = None, f_priceRange = None \<rparr>,
       sort_state = \<lparr> field = SF_name, direction = asc \<rparr>,
       viewMode = VM_list,
       ledgerName = ''Commonwealth Ledger'',
       ledgerPath = None,
       hasUnsavedChanges = False \<rparr>"

definition initialManager :: "'d ledgerManager" where
  "initialManager =
     \<lparr> isOpen = False, showNewDialog = False, showImportDialog = False,
       newLedgerName = [], mergePreview = None, importError = None \<rparr>"


definition exampleNewDate :: "string \<Rightarrow> int" where
  "exampleNewDate s =
     (if s = ''2026-01-09T16:13:16.334Z'' then 1767975196334
      else if s = ''2026-01-09T16:14:21.833Z'' then 1767975261833
      else if s = ''2026-01-09T16:10:15.838Z'' then 1767975015838
      else if s = ''2026-01-09T17:03:47.692Z'' then 1767978227692
      else 0)"

definition playerNamed :: "string \<Rightarrow> player" where
  "playerNamed n = \<lparr> ign = n, uuid = None, p_notes = None \<rparr>"

definition lapisTrade :: "int trade" where
  "lapisTrade =
     \<lparr> t_id = ''aac289db-c886-4b5a-9b29-e60c80dc758c'',
       t_input = \<lparr> itemId = ''lapis_ore'', quantity = \<lparr> amount = 64, unit = U_d \<rparr>,
                   enchantments = None, customName = None \<rparr>,
       t_output = \<lparr> itemId = ''lapis_lazuli'', quantity = \<lparr> amount = 72, unit = U_item \<rparr>,
                    enchantments = None, customName = None \<rparr>,
       t_notes = None,
       lastUpdated = 1767975015838,
       t_isActive = True \<rparr>"

definition stallShop :: "int shop" where
  "stallShop =
     \<lparr> s_id = ''s1'', s_name = ''Alice's Stall'', description = None,
       owner = \<lparr> o_type = individual, o_player = Some (playerNamed ''Alice''), o_group = None \<rparr>,
       location = \<lparr> coord_x = -3998, coord_y = 0, coord_z = 53 \<rparr>,
       trades = [lapisTrade],
       tags = Some [''ore''],
       s_createdAt = 1767975196334,
       s_updatedAt = 1767975261833,
       s_isActive = True \<rparr>"



definition stallStore :: "int shopStore" where
  "stallStore = initialStore\<lparr> shops := [stallShop] \<rparr>"

definition emptyPatch :: "int shopPatch" where
  "emptyPatch =
     \<lparr> sp_id = None, sp_name = None, sp_description = None, sp_owner = None,
       sp_location = None, sp_trades = None, sp_tags = None, sp_createdAt = None,
       sp_updatedAt = None, sp_isActive = None \<rparr>"

definition steveStore :: "int shopStore" where
  "steveStore = initialStore\<lparr> players := [playerNamed ''Steve''] \<rparr>"



definition nameOnlyLedger :: "string ledgerData" where
  "nameOnlyLedger =
     \<lparr> l_version = None, l_name = Some ''X'', l_createdAt = None, l_updatedAt = None,
       l_data = None \<rparr>"

definition stallData :: "int shopData" where
  "stallData =
     \<lparr> sd_name = ''Alice's Stall'', sd_description = None,
       sd_owner = \<lparr> o_type = individual, o_player = Some (playerNamed ''Alice''), o_group = None \<rparr>,
       sd_location = \<lparr> coord_x = -3998, coord_y = 0, coord_z = 53 \<rparr>,
       sd_trades = [], sd_tags = None, sd_isActive = True \<rparr>"

definition stallApp :: "int app" where
  "stallApp = \<lparr> store = stallStore, ui = initialManager \<rparr>"


definition steveApp :: "int app" where
  "steveApp = \<lparr> store = steveStore, ui = initialManager \<rparr>"

definition playersLedger :: "string ledgerData" where
  "playersLedger =
     \<lparr> l_version = Some ''1.0'', l_name = Some ''Incoming'', l_createdAt = None,
       l_updatedAt = None,
       l_data = Some \<lparr> ld_shops = None,
                        ld_players = Some [playerNamed ''steve'', playerNamed ''Alex''],
                        ld_groups = None, ld_customItems = None \<rparr> \<rparr>"





text \<open>\<open>new Date\<close> on the strings of the example ledger, and parsed JSON payloads.\<close>

definition exampleDateOf :: "json option \<Rightarrow> int option" where
  "exampleDateOf v = (case v of Some (JString s) \<Rightarrow> Some (exampleNewDate s) | _ \<Rightarrow> None)"

definition emptyVersionJson :: json where
  "emptyVersionJson = JObject [(''version'', JString []), (''name'', JString ''X''), (''data'', JObject [])]"

definition nullDataJson :: json where
  "nullDataJson = JObject [(''version'', JString ''1.0''), (''name'', JString ''X''), (''data'', JNull)]"

definition bareJson :: json where
  "bareJson = JObject [(''version'', JString ''1.0''), (''data'', JObject [])]"

definition noTradesJson :: json where
  "noTradesJson =
     JObject [(''version'', JString ''1.0''),
              (''data'', JObject [(''shops'', JArray [JObject
                 [(''id'', JString ''s1''),
                  (''createdAt'', JString ''2026-01-09T16:13:16.334Z''),
                  (''updatedAt'', JString ''2026-01-09T16:14:21.833Z'')]])])]"


section \<open>Properties of the store\<close>

text \<open>
  C10. Called with the collections only, \<open>loadLedgerData\<close> replaces the four collections
  and clears the selection, and leaves \<open>ledgerName\<close> and \<open>ledgerPath\<close> as they were;
  \<open>confirmImport\<close>, which calls it that way, keeps the open ledger's name and path.
\<close>

theorem loadLedgerData_frame:
  "ledgerName (loadLedgerData data None None state) = ledgerName state
   \<and> ledgerPath (loadLedgerData data None None state) = ledgerPath state
   \<and> shops (loadLedgerData data None None state) = d_shops data
   \<and> players (loadLedgerData data None None state) = d_players data
   \<and> groups (loadLedgerData data None None state) = d_groups data
   \<and> customItems (loadLedgerData data None None state) = d_customItems data
   \<and> selectedShopId (loadLedgerData data None None state) = None
   \<and> ledgerName (store (confirmImport a)) = ledgerName (store a)
   \<and> ledgerPath (store (confirmImport a)) = ledgerPath (store a)"
  by (simp add: loadLedgerData_def confirmImport_def setHasUnsavedChanges_def split: option.split)

lemma map_unknown_id:
  "ident \<notin> s_id ` set xs \<Longrightarrow> map (\<lambda>shop. if s_id shop = ident then f shop else shop) xs = xs"
  by (induction xs) auto

lemma filter_unknown_id:
  "ident \<notin> s_id ` set xs \<Longrightarrow> filter (\<lambda>shop. s_id shop \<noteq> ident) xs = xs"
  by (induction xs) auto

text \<open>
  C7, as stated, fails: \<open>updateShop\<close> with an id that no shop has does change the store.
  On the clean store holding the one shop \<open>s1\<close>, the call with the id \<open>nonexistent\<close> and an
  empty patch returns a store that differs from the one it was given (the flag
  \<open>hasUnsavedChanges\<close> has become true).
\<close>

theorem updateShop_unknown_id_counterexample:
  "''nonexistent'' \<notin> s_id ` set (shops stallStore)
   \<and> updateShop 0 ''nonexistent'' emptyPatch stallStore \<noteq> stallStore"
proof -
  have "hasUnsavedChanges (updateShop 0 ''nonexistent'' emptyPatch stallStore)
          \<noteq> hasUnsavedChanges stallStore"
    by (simp add: updateShop_def stallStore_def initialStore_def)
  then have "updateShop 0 ''nonexistent'' emptyPatch stallStore \<noteq> stallStore"
    by metis
  moreover have "''nonexistent'' \<notin> s_id ` set (shops stallStore)"
    by (simp add: stallStore_def stallShop_def)
  ultimately show ?thesis by simp
qed

text \<open>
  C7, amended. For an id that no shop of the collection has, \<open>updateShop\<close> returns (it
  raises nothing) the store it was given with \<open>hasUnsavedChanges\<close> set to true and every
  other field as it was, and \<open>deleteShop\<close> returns a store with the same shop collection.
\<close>

theorem unknown_id_operations:
  assumes "ident \<notin> s_id ` set (shops state)"
  shows "updateShop now ident updates state = state\<lparr> hasUnsavedChanges := True \<rparr>
         \<and> shops (deleteShop ident state) = shops state"
  using assms by (simp add: updateShop_def deleteShop_def map_unknown_id filter_unknown_id)

theorem unknown_id_operations_witness:
  "''nonexistent'' \<notin> s_id ` set (shops stallStore)
   \<and> updateShop 7 ''nonexistent'' emptyPatch stallStore = stallStore\<lparr> hasUnsavedChanges := True \<rparr>
   \<and> shops (deleteShop ''nonexistent'' stallStore) = [stallShop]"
proof -
  have h: "''nonexistent'' \<notin> s_id ` set (shops stallStore)"
    by (simp add: stallStore_def stallShop_def)
  have "shops stallStore = [stallShop]"
    by (simp add: stallStore_def)
  with h unknown_id_operations [OF h, of 7 emptyPatch] show ?thesis
    by simp
qed

text \<open>
  C6 at \<open>importShops\<close>: on the clean initial store, importing one shop changes the shop
  collection and leaves \<open>hasUnsavedChanges\<close> false.
\<close>

theorem importShops_leaves_flag:
  "hasUnsavedChanges initialStore = False
   \<and> shops (importShops [stallShop] initialStore) = [stallShop]
   \<and> shops (importShops [stallShop] initialStore) \<noteq> shops initialStore
   \<and> hasUnsavedChanges (importShops [stallShop] initialStore) = False"
  by (simp add: importShops_def initialStore_def)

text \<open>The other operations that write a collection do set the flag; \<open>addPlayer\<close> does so
  whenever it adds the player.\<close>

lemma mutators_set_flag:
  "hasUnsavedChanges (snd (addShop rnd now shopData state))"
  "hasUnsavedChanges (updateShop now ident shopUpdates state)"
  "hasUnsavedChanges (deleteShop ident state)"
  "hasUnsavedChanges (addTrade rnd now ident tradeData state)"
  "hasUnsavedChanges (updateTrade now ident tradeId tradeUpdates state)"
  "hasUnsavedChanges (deleteTrade now ident tradeId state)"
  "hasUnsavedChanges (updatePlayer i playerUpdates state)"
  "hasUnsavedChanges (deletePlayer i state)"
  "hasUnsavedChanges (snd (addGroup rnd groupData state))"
  "hasUnsavedChanges (updateGroup ident groupUpdates state)"
  "hasUnsavedChanges (deleteGroup ident state)"
  "hasUnsavedChanges (snd (addCustomItem rnd now itemData state))"
  "hasUnsavedChanges (updateCustomItem ident itemUpdates state)"
  "hasUnsavedChanges (deleteCustomItem ident state)"
  "\<not> list_ex (\<lambda>p. ign p = ign player) (players state)
     \<Longrightarrow> hasUnsavedChanges (addPlayer player state)"
  by (simp_all add: addShop_def updateShop_def deleteShop_def addTrade_def updateTrade_def
      deleteTrade_def updatePlayer_def deletePlayer_def addGroup_def updateGroup_def
      deleteGroup_def addCustomItem_def updateCustomItem_def deleteCustomItem_def
      addPlayer_def Let_def)

lemma clearing_operations:
  "\<not> hasUnsavedChanges (clearAllData state)"
  "\<not> hasUnsavedChanges (loadLedgerData data name path state)"
  "\<not> hasUnsavedChanges (setHasUnsavedChanges False state)"
  by (simp_all add: clearAllData_def loadLedgerData_def setHasUnsavedChanges_def)

text \<open>
  C8 at \<open>addPlayer\<close>: the store holds the player \<open>Steve\<close>; adding \<open>steve\<close> is not rejected,
  and the collection then holds two players whose igns are equal in lower case.
\<close>

theorem addPlayer_case_variant:
  "players (addPlayer (playerNamed ''steve'') steveStore)
     = [playerNamed ''Steve'', playerNamed ''steve'']
   \<and> toLowerCase (ign (playerNamed ''Steve'')) = toLowerCase (ign (playerNamed ''steve''))"
  by (simp add: addPlayer_def steveStore_def initialStore_def playerNamed_def
      toLowerCase_def charToLower_def)


section \<open>The codec\<close>










section \<open>Decoding\<close>

text \<open>When each step of the decoding throws, and what it throws.\<close>

lemma getProp_lookup: "v \<noteq> JNull \<Longrightarrow> getProp key v = Inr (lookup key v)"
  by (cases v) (simp_all add: getProp_def lookup_def)

lemma getProp_null: "getProp key JNull = Inl TypeError"
  by (simp add: getProp_def)

lemma truthy_not_null: "truthy v \<Longrightarrow> v \<noteq> JNull"
  by (cases v) simp_all

lemma andThen_simps:
  "andThen (Inl e) f = Inl e"
  "andThen (Inr x) f = f x"
  by (simp_all add: andThen_def)

lemma isl_andThen: "isl (andThen r f) = (isl r \<or> isl (f (projr r)))"
  by (simp add: andThen_def split: sum.split)

lemma mapThrowing_isl: "isl (mapThrowing f xs) = (\<not> list_all (\<lambda>x. \<not> isl (f x)) xs)"
  by (induction xs) (auto split: sum.splits)

lemma mapThrowing_error:
  "(\<And>x e. f x = Inl e \<Longrightarrow> e = TypeError) \<Longrightarrow> mapThrowing f xs = Inl e \<Longrightarrow> e = TypeError"
  by (induction xs) (auto split: sum.splits)

lemma arrayMap_error:
  assumes "\<And>x e. f x = Inl e \<Longrightarrow> e = TypeError" and "arrayMap f v = Inl e"
  shows "e = TypeError"
proof (cases v)
  case (JArray xs)
  with assms(2) have "mapThrowing f xs = Inl e"
    by (simp add: arrayMap_def)
  with assms(1) show ?thesis
    by (rule mapThrowing_error)
qed (use assms(2) in \<open>simp_all add: arrayMap_def\<close>)

lemma constructDate_isl: "isl (constructDate newDate v) = (newDate v = None)"
  by (simp add: constructDate_def split: option.split)

lemma constructDate_error: "constructDate newDate v = Inl e \<Longrightarrow> e = TypeError"
  by (simp add: constructDate_def split: option.splits)

lemma getProp_error: "getProp key v = Inl e \<Longrightarrow> e = TypeError"
  by (cases v) (simp_all add: getProp_def)

lemma decodeTrade_isl: "isl (decodeTrade newDate t) = (\<not> tradeOk newDate t)"
proof (cases "t = JNull")
  case True
  then show ?thesis by (simp add: decodeTrade_def getProp_null andThen_simps tradeOk_def)
next
  case False
  then show ?thesis
    by (simp add: decodeTrade_def getProp_lookup andThen_simps tradeOk_def isl_andThen constructDate_isl)
qed

lemma decodeTrade_error: "decodeTrade newDate t = Inl e \<Longrightarrow> e = TypeError"
  by (auto simp: decodeTrade_def andThen_def split: sum.splits dest: getProp_error constructDate_error)

lemma decodeCustomItem_isl: "isl (decodeCustomItem newDate c) = (\<not> customItemOk newDate c)"
proof (cases "c = JNull")
  case True
  then show ?thesis by (simp add: decodeCustomItem_def getProp_null andThen_simps customItemOk_def)
next
  case False
  then show ?thesis
    by (simp add: decodeCustomItem_def getProp_lookup andThen_simps customItemOk_def isl_andThen
        constructDate_isl)
qed

lemma decodeCustomItem_error: "decodeCustomItem newDate c = Inl e \<Longrightarrow> e = TypeError"
  by (auto simp: decodeCustomItem_def andThen_def split: sum.splits
      dest: getProp_error constructDate_error)

lemma arrayMap_isl:
  "isl (arrayMap f v) = (case v of JArray xs \<Rightarrow> \<not> list_all (\<lambda>x. \<not> isl (f x)) xs | _ \<Rightarrow> True)"
  by (cases v) (simp_all add: arrayMap_def mapThrowing_isl)

lemma tradesOf_isl:
  "s \<noteq> JNull \<Longrightarrow> tradesOf s = (case lookup ''trades'' s of None \<Rightarrow> Inl TypeError | Some t \<Rightarrow> Inr t)"
  by (simp add: tradesOf_def getProp_lookup andThen_simps)

lemma tradesOf_error: "tradesOf s = Inl e \<Longrightarrow> e = TypeError"
  by (auto simp: tradesOf_def andThen_def split: sum.splits option.splits dest: getProp_error)

lemma decodeShop_isl: "isl (decodeShop newDate s) = (\<not> shopOk newDate s)"
proof (cases "s = JNull")
  case True
  then show ?thesis by (simp add: decodeShop_def getProp_null andThen_simps shopOk_def)
next
  case False
  show ?thesis
  proof (cases "lookup ''trades'' s")
    case None
    with False show ?thesis
      by (simp add: decodeShop_def getProp_lookup isl_andThen constructDate_isl tradesOf_isl shopOk_def)
  next
    case (Some t)
    with False show ?thesis
      by (cases t)
         (auto simp: decodeShop_def getProp_lookup isl_andThen constructDate_isl tradesOf_isl
            shopOk_def arrayMap_isl decodeTrade_isl)
  qed
qed

lemma decodeTrades_error: "arrayMap (decodeTrade newDate) v = Inl e \<Longrightarrow> e = TypeError"
  using arrayMap_error [of "decodeTrade newDate" v e] decodeTrade_error by blast

lemma decodeShop_error: "decodeShop newDate s = Inl e \<Longrightarrow> e = TypeError"
  by (auto simp: decodeShop_def andThen_def split: sum.splits
      dest: getProp_error constructDate_error tradesOf_error decodeTrades_error)

lemma collection_isl:
  "isl (arrayMap f (orEmptyArray v)) = (\<not> collectionOk (\<lambda>x. \<not> isl (f x)) v)"
proof (cases v)
  case None
  then show ?thesis by (simp add: orEmptyArray_def arrayMap_def collectionOk_def)
next
  case (Some x)
  then show ?thesis
    by (cases x) (simp_all add: orEmptyArray_def arrayMap_def collectionOk_def mapThrowing_isl)
qed

lemma required_Inr: "(required v = Inr x) = (v = Some x \<and> truthy x)"
  by (auto simp: required_def split: option.splits)

lemma required_Inl: "(required v = Inl e) = (e = InvalidLedgerFormat \<and> (case v of None \<Rightarrow> True | Some x \<Rightarrow> \<not> truthy x))"
  by (auto simp: required_def split: option.splits)

lemma decodeShops_error: "arrayMap (decodeShop newDate) v = Inl e \<Longrightarrow> e = TypeError"
  using arrayMap_error [of "decodeShop newDate" v e] decodeShop_error by blast

lemma decodeCustomItems_error: "arrayMap (decodeCustomItem newDate) v = Inl e \<Longrightarrow> e = TypeError"
  using arrayMap_error [of "decodeCustomItem newDate" v e] decodeCustomItem_error by blast

lemma decodeJson_format:
  assumes "payload \<noteq> JNull"
  shows "(decodeJson newDate (Some payload) = Inl InvalidLedgerFormat)
           = (missingOrFalsy ''version'' payload \<or> missingOrFalsy ''data'' payload)"
proof (cases "required (lookup ''version'' payload)")
  case (Inl e)
  then have e: "e = InvalidLedgerFormat" and m: "missingOrFalsy ''version'' payload"
    by (simp_all add: required_Inl missingOrFalsy_def)
  have "decodeJson newDate (Some payload) = Inl InvalidLedgerFormat"
    using assms Inl e by (simp add: decodeJson_def getProp_lookup andThen_simps)
  with m show ?thesis
    by simp
next
  case v: (Inr version)
  show ?thesis
  proof (cases "required (lookup ''data'' payload)")
    case (Inl e)
    then have e: "e = InvalidLedgerFormat" and m: "missingOrFalsy ''data'' payload"
      by (simp_all add: required_Inl missingOrFalsy_def)
    have "decodeJson newDate (Some payload) = Inl InvalidLedgerFormat"
      using assms v Inl e by (simp add: decodeJson_def getProp_lookup andThen_simps)
    with m show ?thesis
      by simp
  next
    case (Inr d)
    then have d: "lookup ''data'' payload = Some d" "truthy d"
      by (simp_all add: required_Inr)
    then have dn: "d \<noteq> JNull"
      by (auto dest: truthy_not_null)
    have ok: "\<not> (missingOrFalsy ''version'' payload \<or> missingOrFalsy ''data'' payload)"
      using v d by (auto simp: missingOrFalsy_def required_Inr)
    have "decodeJson newDate (Some payload) \<noteq> Inl InvalidLedgerFormat"
      using assms v Inr dn
      by (auto simp: decodeJson_def getProp_lookup andThen_def split: sum.splits
          dest: decodeShops_error decodeCustomItems_error)
    with ok show ?thesis
      by simp
  qed
qed

lemma decodeJson_passed:
  assumes "payload \<noteq> JNull" and "\<not> missingOrFalsy ''version'' payload"
    and "lookup ''data'' payload = Some d" and "truthy d"
  shows "decodeJson newDate (Some payload)
         = andThen (arrayMap (decodeShop newDate) (orEmptyArray (lookup ''shops'' d))) (\<lambda>shops'.
           andThen (arrayMap (decodeCustomItem newDate) (orEmptyArray (lookup ''customItems'' d))) (\<lambda>items'.
             Inr \<lparr> dec_shops = shops', dec_players = orEmptyArray (lookup ''players'' d),
                   dec_groups = orEmptyArray (lookup ''groups'' d), dec_customItems = items' \<rparr>))"
proof -
  from assms(4) have dn: "d \<noteq> JNull"
    by (auto dest: truthy_not_null)
  from assms(2) obtain version where v: "lookup ''version'' payload = Some version" "truthy version"
    by (auto simp: missingOrFalsy_def split: option.splits)
  show ?thesis
    using assms(1,3,4) dn v
    by (simp add: decodeJson_def getProp_lookup andThen_simps required_def)
qed

text \<open>
  C4, as stated, fails. The payload \<open>{"version":"","name":"X","data":{}}\<close> has a \<open>version\<close> and
  a \<open>data\<close> field, and so has \<open>{"version":"1.0","name":"X","data":null}\<close>; the guard
  \<open>!data.version || !data.data\<close> tests for falsy values and rejects both with the format
  error.
\<close>

theorem decode_counterexample:
  "lookup ''version'' emptyVersionJson = Some (JString [])
   \<and> lookup ''data'' emptyVersionJson = Some (JObject [])
   \<and> decodeJson exampleDateOf (Some emptyVersionJson) = Inl InvalidLedgerFormat
   \<and> lookup ''version'' nullDataJson = Some (JString ''1.0'')
   \<and> lookup ''data'' nullDataJson = Some JNull
   \<and> decodeJson exampleDateOf (Some nullDataJson) = Inl InvalidLedgerFormat"
  by (simp add: emptyVersionJson_def nullDataJson_def lookup_def decodeJson_def getProp_def
      andThen_simps required_def)

text \<open>
  C4, amended. A text that does not parse fails with a \<open>SyntaxError\<close>, and the payload \<open>null\<close>
  with a \<open>TypeError\<close>. Any other payload fails with the format error exactly when its
  \<open>version\<close> or its \<open>data\<close> is missing or falsy (\<open>null\<close>, \<open>false\<close>, \<open>0\<close>, the empty string), as
  \<open>{"name":"X"}\<close> does. Past that guard the decoding fails exactly when \<open>shops\<close> or
  \<open>customItems\<close> is truthy and cannot be converted (it is not an array, or an entry is
  \<open>null\<close> or has a date that \<open>new Date\<close> rejects, or a shop has \<open>trades\<close> that are missing, not
  an array, or hold such an entry), and then with a \<open>TypeError\<close>. It never fails because a
  collection is absent: absent \<open>players\<close> and \<open>groups\<close> are read as the empty array, and
  absent \<open>shops\<close> and \<open>customItems\<close> give the empty list.
\<close>

theorem decode_fails_iff:
  "decodeJson newDate None = Inl SyntaxError
   \<and> decodeJson newDate (Some JNull) = Inl TypeError
   \<and> (payload \<noteq> JNull \<longrightarrow>
        (decodeJson newDate (Some payload) = Inl InvalidLedgerFormat)
          = (missingOrFalsy ''version'' payload \<or> missingOrFalsy ''data'' payload))
   \<and> (payload \<noteq> JNull \<and> \<not> missingOrFalsy ''version'' payload
        \<and> lookup ''data'' payload = Some d \<and> truthy d \<longrightarrow>
          isl (decodeJson newDate (Some payload))
            = (\<not> (collectionOk (shopOk newDate) (lookup ''shops'' d)
                  \<and> collectionOk (customItemOk newDate) (lookup ''customItems'' d)))
          \<and> (isl (decodeJson newDate (Some payload))
               \<longrightarrow> decodeJson newDate (Some payload) = Inl TypeError)
          \<and> (decodeJson newDate (Some payload) = Inr r \<longrightarrow>
                dec_players r = orEmptyArray (lookup ''players'' d)
                \<and> dec_groups r = orEmptyArray (lookup ''groups'' d)
                \<and> (lookup ''shops'' d = None \<longrightarrow> dec_shops r = [])
                \<and> (lookup ''customItems'' d = None \<longrightarrow> dec_customItems r = [])))
   \<and> decodeJson newDate (Some (JObject [(''name'', JString ''X'')])) = Inl InvalidLedgerFormat"
proof -
  have 1: "decodeJson newDate None = Inl SyntaxError"
    by (simp add: decodeJson_def)
  have 2: "decodeJson newDate (Some JNull) = Inl TypeError"
    by (simp add: decodeJson_def getProp_null andThen_simps)
  have 3: "payload \<noteq> JNull \<longrightarrow>
        (decodeJson newDate (Some payload) = Inl InvalidLedgerFormat)
          = (missingOrFalsy ''version'' payload \<or> missingOrFalsy ''data'' payload)"
    using decodeJson_format [of payload newDate] by blast
  have 4: "payload \<noteq> JNull \<and> \<not> missingOrFalsy ''version'' payload
        \<and> lookup ''data'' payload = Some d \<and> truthy d \<longrightarrow>
          isl (decodeJson newDate (Some payload))
            = (\<not> (collectionOk (shopOk newDate) (lookup ''shops'' d)
                  \<and> collectionOk (customItemOk newDate) (lookup ''customItems'' d)))
          \<and> (isl (decodeJson newDate (Some payload))
               \<longrightarrow> decodeJson newDate (Some payload) = Inl TypeError)
          \<and> (decodeJson newDate (Some payload) = Inr r \<longrightarrow>
                dec_players r = orEmptyArray (lookup ''players'' d)
                \<and> dec_groups r = orEmptyArray (lookup ''groups'' d)
                \<and> (lookup ''shops'' d = None \<longrightarrow> dec_shops r = [])
                \<and> (lookup ''customItems'' d = None \<longrightarrow> dec_customItems r = []))"
  proof
    assume a: "payload \<noteq> JNull \<and> \<not> missingOrFalsy ''version'' payload
        \<and> lookup ''data'' payload = Some d \<and> truthy d"
    then have p: "decodeJson newDate (Some payload)
         = andThen (arrayMap (decodeShop newDate) (orEmptyArray (lookup ''shops'' d))) (\<lambda>shops'.
           andThen (arrayMap (decodeCustomItem newDate) (orEmptyArray (lookup ''customItems'' d))) (\<lambda>items'.
             Inr \<lparr> dec_shops = shops', dec_players = orEmptyArray (lookup ''players'' d),
                   dec_groups = orEmptyArray (lookup ''groups'' d), dec_customItems = items' \<rparr>))"
      by (intro decodeJson_passed) simp_all
    have s: "(\<lambda>x. \<not> isl (decodeShop newDate x)) = shopOk newDate"
      by (simp add: decodeShop_isl)
    have c: "(\<lambda>x. \<not> isl (decodeCustomItem newDate x)) = customItemOk newDate"
      by (simp add: decodeCustomItem_isl)
    have i: "isl (decodeJson newDate (Some payload))
            = (\<not> (collectionOk (shopOk newDate) (lookup ''shops'' d)
                  \<and> collectionOk (customItemOk newDate) (lookup ''customItems'' d)))"
      unfolding p
      using collection_isl [of "decodeShop newDate" "lookup ''shops'' d"]
        collection_isl [of "decodeCustomItem newDate" "lookup ''customItems'' d"]
      by (auto simp: s c andThen_def split: sum.splits)
    have e: "isl (decodeJson newDate (Some payload))
               \<longrightarrow> decodeJson newDate (Some payload) = Inl TypeError"
      unfolding p
      by (auto simp: andThen_def split: sum.splits
          dest: decodeShops_error decodeCustomItems_error)
    have r: "decodeJson newDate (Some payload) = Inr r \<longrightarrow>
                dec_players r = orEmptyArray (lookup ''players'' d)
                \<and> dec_groups r = orEmptyArray (lookup ''groups'' d)
                \<and> (lookup ''shops'' d = None \<longrightarrow> dec_shops r = [])
                \<and> (lookup ''customItems'' d = None \<longrightarrow> dec_customItems r = [])"
      unfolding p
      by (auto simp: andThen_def orEmptyArray_def arrayMap_def split: sum.splits)
    from i e r show "isl (decodeJson newDate (Some payload))
            = (\<not> (collectionOk (shopOk newDate) (lookup ''shops'' d)
                  \<and> collectionOk (customItemOk newDate) (lookup ''customItems'' d)))
          \<and> (isl (decodeJson newDate (Some payload))
               \<longrightarrow> decodeJson newDate (Some payload) = Inl TypeError)
          \<and> (decodeJson newDate (Some payload) = Inr r \<longrightarrow>
                dec_players r = orEmptyArray (lookup ''players'' d)
                \<and> dec_groups r = orEmptyArray (lookup ''groups'' d)
                \<and> (lookup ''shops'' d = None \<longrightarrow> dec_shops r = [])
                \<and> (lookup ''customItems'' d = None \<longrightarrow> dec_customItems r = []))"
      by blast
  qed
  have 5: "decodeJson newDate (Some (JObject [(''name'', JString ''X'')])) = Inl InvalidLedgerFormat"
    by (simp add: decodeJson_def getProp_def andThen_simps required_def)
  from 1 2 3 4 5 show ?thesis
    by blast
qed

theorem decode_fails_iff_witness:
  "decodeJson exampleDateOf (Some emptyVersionJson) = Inl InvalidLedgerFormat
   \<and> decodeJson exampleDateOf (Some nullDataJson) = Inl InvalidLedgerFormat
   \<and> decodeJson exampleDateOf (Some bareJson)
       = Inr \<lparr> dec_shops = [], dec_players = JArray [], dec_groups = JArray [],
               dec_customItems = [] \<rparr>
   \<and> decodeJson exampleDateOf (Some noTradesJson) = Inl TypeError"
proof -
  have ev: "emptyVersionJson \<noteq> JNull \<and> missingOrFalsy ''version'' emptyVersionJson"
    by (simp add: emptyVersionJson_def missingOrFalsy_def lookup_def)
  have nd: "nullDataJson \<noteq> JNull \<and> missingOrFalsy ''data'' nullDataJson"
    by (simp add: nullDataJson_def missingOrFalsy_def lookup_def)
  have b: "bareJson \<noteq> JNull \<and> \<not> missingOrFalsy ''version'' bareJson
      \<and> lookup ''data'' bareJson = Some (JObject []) \<and> truthy (JObject [])"
    by (simp add: bareJson_def missingOrFalsy_def lookup_def)
  have bl: "lookup ''shops'' (JObject []) = None \<and> lookup ''customItems'' (JObject []) = None
      \<and> lookup ''players'' (JObject []) = None \<and> lookup ''groups'' (JObject []) = None"
    by (simp add: lookup_def)
  let ?shop = "JObject [(''id'', JString ''s1''),
                  (''createdAt'', JString ''2026-01-09T16:13:16.334Z''),
                  (''updatedAt'', JString ''2026-01-09T16:14:21.833Z'')]"
  let ?d = "JObject [(''shops'', JArray [?shop])]"
  have n: "noTradesJson \<noteq> JNull \<and> \<not> missingOrFalsy ''version'' noTradesJson
      \<and> lookup ''data'' noTradesJson = Some ?d \<and> truthy ?d"
    by (simp add: noTradesJson_def missingOrFalsy_def lookup_def)
  have nb: "\<not> collectionOk (shopOk exampleDateOf) (lookup ''shops'' ?d)"
    by (simp add: collectionOk_def shopOk_def lookup_def)
  from decode_fails_iff [of exampleDateOf emptyVersionJson] ev
  have 1: "decodeJson exampleDateOf (Some emptyVersionJson) = Inl InvalidLedgerFormat"
    by blast
  from decode_fails_iff [of exampleDateOf nullDataJson] nd
  have 2: "decodeJson exampleDateOf (Some nullDataJson) = Inl InvalidLedgerFormat"
    by blast
  from decode_fails_iff [of exampleDateOf bareJson "JObject []"] b
  have "\<not> isl (decodeJson exampleDateOf (Some bareJson))"
    by (simp add: collectionOk_def lookup_def)
  then obtain r where r: "decodeJson exampleDateOf (Some bareJson) = Inr r"
    by (cases "decodeJson exampleDateOf (Some bareJson)") simp_all
  from decode_fails_iff [of exampleDateOf bareJson "JObject []" r] b bl r
  have "dec_players r = JArray [] \<and> dec_groups r = JArray [] \<and> dec_shops r = []
      \<and> dec_customItems r = []"
    by (simp add: orEmptyArray_def)
  with r have 3: "decodeJson exampleDateOf (Some bareJson)
       = Inr \<lparr> dec_shops = [], dec_players = JArray [], dec_groups = JArray [],
               dec_customItems = [] \<rparr>"
    by (cases r) simp
  from decode_fails_iff [of exampleDateOf noTradesJson ?d] n nb
  have 4: "decodeJson exampleDateOf (Some noTradesJson) = Inl TypeError"
    by blast
  from 1 2 3 4 show ?thesis
    by simp
qed

text \<open>On the JSON image of a payload of the \<open>LedgerData\<close> shape, the decoding of JSON values
  is \<open>processLedger\<close>.\<close>

lemma mapThrowing_map:
  "(\<And>x. f (g x) = Inr (h x)) \<Longrightarrow> mapThrowing f (map g xs) = Inr (map h xs)"
  by (induction xs) simp_all

lemma decodeTrade_typed:
  assumes "\<And>s. dateOf (Some (JString s)) = Some (newDate s)"
  shows "decodeTrade dateOf (trade_json t) = Inr (trade_value (processTrade newDate t))"
  by (simp add: decodeTrade_def trade_json_def trade_value_def processTrade_def getProp_def
      andThen_simps constructDate_def spread_def optional_def assms split: option.split)

lemma decodeCustomItem_typed:
  assumes "\<And>s. dateOf (Some (JString s)) = Some (newDate s)"
  shows "decodeCustomItem dateOf (customItem_json c)
         = Inr (customItem_value (processCustomItem newDate c))"
  by (simp add: decodeCustomItem_def customItem_json_def customItem_value_def
      processCustomItem_def getProp_def andThen_simps constructDate_def spread_def optional_def
      assms split: option.split)

lemma decodeShop_typed:
  assumes "\<And>s. dateOf (Some (JString s)) = Some (newDate s)"
  shows "decodeShop dateOf (shop_json sh) = Inr (shop_value (processShop newDate sh))"
proof -
  have t: "arrayMap (decodeTrade dateOf) (JArray (map trade_json (trades sh)))
           = Inr (map (\<lambda>t. trade_value (processTrade newDate t)) (trades sh))"
    by (simp add: arrayMap_def mapThrowing_map decodeTrade_typed [of dateOf newDate, OF assms])
  have l: "getProp ''createdAt'' (shop_json sh) = Inr (Some (JString (s_createdAt sh)))"
    "getProp ''updatedAt'' (shop_json sh) = Inr (Some (JString (s_updatedAt sh)))"
    "tradesOf (shop_json sh) = Inr (JArray (map trade_json (trades sh)))"
    by (simp_all add: tradesOf_def andThen_simps getProp_def shop_json_def optional_def
        split: option.split)
  show ?thesis
    by (simp add: decodeShop_def l t andThen_simps constructDate_def assms)
       (simp add: shop_json_def shop_value_def processShop_def spread_def optional_def
          comp_def split: option.split)
qed

lemma decodeJson_typed:
  assumes "\<And>s. dateOf (Some (JString s)) = Some (newDate s)"
  shows "decodeJson dateOf (Some (ledger_json l))
         = map_sum id collections_decoded (processLedger newDate (Some l))"
proof -
  have v: "getProp ''version'' (ledger_json l) = Inr (map_option JString (l_version l))"
    by (simp add: getProp_def ledger_json_def optional_def split: option.split)
  have d: "getProp ''data'' (ledger_json l) = Inr (map_option payload_json (l_data l))"
    by (simp add: getProp_def ledger_json_def optional_def split: option.split)
  have p: "\<And>d. getProp ''shops'' (payload_json d)
              = Inr (map_option (\<lambda>xs. JArray (map shop_json xs)) (ld_shops d))"
    "\<And>d. getProp ''players'' (payload_json d)
              = Inr (map_option (\<lambda>xs. JArray (map player_json xs)) (ld_players d))"
    "\<And>d. getProp ''groups'' (payload_json d)
              = Inr (map_option (\<lambda>xs. JArray (map group_json xs)) (ld_groups d))"
    "\<And>d. getProp ''customItems'' (payload_json d)
              = Inr (map_option (\<lambda>xs. JArray (map customItem_json xs)) (ld_customItems d))"
    by (simp_all add: getProp_def payload_json_def optional_def split: option.split)
  have s: "\<And>xs. arrayMap (decodeShop dateOf) (JArray (map shop_json xs))
             = Inr (map (\<lambda>x. shop_value (processShop newDate x)) xs)"
    by (simp add: arrayMap_def mapThrowing_map decodeShop_typed [of dateOf newDate, OF assms])
  have c: "\<And>xs. arrayMap (decodeCustomItem dateOf) (JArray (map customItem_json xs))
             = Inr (map (\<lambda>x. customItem_value (processCustomItem newDate x)) xs)"
    by (simp add: arrayMap_def mapThrowing_map
        decodeCustomItem_typed [of dateOf newDate, OF assms])
  have o: "\<And>f v. orEmptyArray (map_option (\<lambda>xs. JArray (map f xs)) v) = JArray (map f (orElse v []))"
    by (simp add: orEmptyArray_def orElse_def split: option.split)
  have t: "\<And>d. truthy (payload_json d)"
    by (simp add: payload_json_def)
  show ?thesis
    by (simp add: decodeJson_def v d p s c o t andThen_simps required_def processLedger_def
        falsy_def collections_decoded_def comp_def split: option.split)
qed


section \<open>Import and merge\<close>

text \<open>
  C5. When the decoding fails in \<open>handleFileImport\<close> (the parse throws, or \<open>version\<close> or
  \<open>data\<close> is missing), the store is returned as it was, with its collections, selection,
  name, path and flag, and the merge preview is the one held before: no collision list
  is computed. The handler records the import error and shows the dialog.
\<close>

theorem import_failure_atomic:
  assumes "processLedger newDate parsed = Inl e"
  shows "store (handleFileImport lower newDate (Some parsed) a) = store a
         \<and> mergePreview (ui (handleFileImport lower newDate (Some parsed) a)) = mergePreview (ui a)
         \<and> importError (ui (handleFileImport lower newDate (Some parsed) a)) \<noteq> None
         \<and> showImportDialog (ui (handleFileImport lower newDate (Some parsed) a))"
  using assms by (simp add: handleFileImport_def)

theorem import_failure_atomic_witness:
  "store (handleFileImport toLowerCase exampleNewDate (Some (Some nameOnlyLedger)) stallApp) = stallStore
   \<and> mergePreview (ui (handleFileImport toLowerCase exampleNewDate (Some (Some nameOnlyLedger)) stallApp)) = None
   \<and> store (handleFileImport toLowerCase exampleNewDate (Some None) stallApp) = stallStore
   \<and> mergePreview (ui (handleFileImport toLowerCase exampleNewDate (Some None) stallApp)) = None"
proof -
  have 1: "processLedger exampleNewDate (Some nameOnlyLedger) = Inl InvalidLedgerFormat"
    by (simp add: processLedger_def nameOnlyLedger_def)
  have 2: "processLedger exampleNewDate None = Inl SyntaxError"
    by (simp add: processLedger_def)
  have 3: "store stallApp = stallStore \<and> mergePreview (ui stallApp) = None"
    by (simp add: stallApp_def initialManager_def)
  from import_failure_atomic [OF 1, of toLowerCase stallApp]
    import_failure_atomic [OF 2, of toLowerCase stallApp] 3
  show ?thesis by simp
qed


text \<open>The loops of \<open>handleFileImport\<close> and \<open>confirmImport\<close> in closed form.\<close>

lemma findIndex_Some:
  "findIndex P xs = Some i \<Longrightarrow> i < length xs \<and> P (xs ! i) \<and> (\<forall>j<i. \<not> P (xs ! j))"
proof (induction xs arbitrary: i)
  case Nil
  then show ?case by simp
next
  case (Cons x xs)
  show ?case
  proof (cases "P x")
    case True
    with Cons.prems show ?thesis by simp
  next
    case False
    with Cons.prems obtain k where k: "findIndex P xs = Some k" "i = Suc k"
      by auto
    from Cons.IH [OF k(1)] False k(2) show ?thesis
      by (auto simp: nth_Cons split: nat.splits)
  qed
qed

lemma findIndex_None: "(findIndex P xs = None) = (\<not> list_ex P xs)"
  by (induction xs) auto



lemma replaceFirst_in_place:
  assumes "list_ex P xs"
  shows "\<exists>i<length xs. P (xs ! i) \<and> (\<forall>j<i. \<not> P (xs ! j)) \<and> replaceFirst P v xs = xs[i := v]"
proof -
  from assms obtain i where i: "findIndex P xs = Some i"
    using findIndex_None [of P xs] by (cases "findIndex P xs") auto
  from findIndex_Some [OF i] i show ?thesis
    by (auto simp: replaceFirst_def)
qed

lemma replaceFirst_absent: "\<not> list_ex P xs \<Longrightarrow> replaceFirst P v xs = xs"
  using findIndex_None [of P xs] by (simp add: replaceFirst_def)



lemma fold_applyResolution_no_replace:
  "list_all (\<lambda>c. resolution c \<noteq> R_replace) cs \<Longrightarrow> fold applyResolution cs f = f"
  by (induction cs arbitrary: f) (simp_all add: applyResolution_def)




lemma checkShops_eq:
  "checkShops cur inc (cs, new) =
     (cs @ List.map_filter (\<lambda>i. map_option (\<lambda>e. \<lparr> records = OfShop e i, resolution = R_skip \<rparr>)
                                  (find (\<lambda>s. s_id s = s_id i) cur)) inc,
      new @ filter (\<lambda>i. find (\<lambda>s. s_id s = s_id i) cur = None) inc)"
  by (induction inc arbitrary: cs new) (auto split: option.splits)

lemma checkPlayers_eq:
  "checkPlayers lower cur inc (cs, new) =
     (cs @ List.map_filter (\<lambda>i. map_option (\<lambda>e. \<lparr> records = OfPlayer e i, resolution = R_skip \<rparr>)
                                  (find (\<lambda>p. lower (ign p) = lower (ign i)) cur)) inc,
      new @ filter (\<lambda>i. find (\<lambda>p. lower (ign p) = lower (ign i)) cur = None) inc)"
  by (induction inc arbitrary: cs new) (auto split: option.splits)

lemma checkGroups_eq:
  "checkGroups cur inc (cs, new) =
     (cs @ List.map_filter (\<lambda>i. map_option (\<lambda>e. \<lparr> records = OfGroup e i, resolution = R_skip \<rparr>)
                                  (find (\<lambda>g. g_id g = g_id i) cur)) inc,
      new @ filter (\<lambda>i. find (\<lambda>g. g_id g = g_id i) cur = None) inc)"
  by (induction inc arbitrary: cs new) (auto split: option.splits)

lemma checkCustomItems_eq:
  "checkCustomItems cur inc (cs, new) =
     (cs @ List.map_filter (\<lambda>i. map_option (\<lambda>e. \<lparr> records = OfCustomItem e i, resolution = R_skip \<rparr>)
                                  (find (\<lambda>c. c_id c = c_id i) cur)) inc,
      new @ filter (\<lambda>i. find (\<lambda>c. c_id c = c_id i) cur = None) inc)"
  by (induction inc arbitrary: cs new) (auto split: option.splits)

lemma detectCollisions_eq:
  "detectCollisions lower state incoming =
     \<lparr> newShops = filter (\<lambda>i. find (\<lambda>s. s_id s = s_id i) (shops state) = None) (d_shops incoming),
       newPlayers = filter (\<lambda>i. find (\<lambda>p. lower (ign p) = lower (ign i)) (players state) = None)
                      (d_players incoming),
       newGroups = filter (\<lambda>i. find (\<lambda>g. g_id g = g_id i) (groups state) = None) (d_groups incoming),
       newCustomItems = filter (\<lambda>i. find (\<lambda>c. c_id c = c_id i) (customItems state) = None)
                          (d_customItems incoming),
       collisions =
         List.map_filter (\<lambda>i. map_option (\<lambda>e. \<lparr> records = OfShop e i, resolution = R_skip \<rparr>)
                                  (find (\<lambda>s. s_id s = s_id i) (shops state))) (d_shops incoming)
         @ List.map_filter (\<lambda>i. map_option (\<lambda>e. \<lparr> records = OfPlayer e i, resolution = R_skip \<rparr>)
                                  (find (\<lambda>p. lower (ign p) = lower (ign i)) (players state)))
             (d_players incoming)
         @ List.map_filter (\<lambda>i. map_option (\<lambda>e. \<lparr> records = OfGroup e i, resolution = R_skip \<rparr>)
                                  (find (\<lambda>g. g_id g = g_id i) (groups state))) (d_groups incoming)
         @ List.map_filter (\<lambda>i. map_option (\<lambda>e. \<lparr> records = OfCustomItem e i, resolution = R_skip \<rparr>)
                                  (find (\<lambda>c. c_id c = c_id i) (customItems state)))
             (d_customItems incoming) \<rparr>"
  by (simp add: detectCollisions_def checkShops_eq checkPlayers_eq checkGroups_eq
      checkCustomItems_eq)

lemma list_all_map_filter:
  "(\<And>x y. f x = Some y \<Longrightarrow> Q y) \<Longrightarrow> list_all Q (List.map_filter f xs)"
  by (induction xs) (auto split: option.splits)

lemma find_SomeD: "find P xs = Some e \<Longrightarrow> P e"
  by (auto simp: find_Some_iff)

lemma detectCollisions_skip:
  "list_all (\<lambda>c. resolution c = R_skip) (collisions (detectCollisions lower state incoming))"
  unfolding detectCollisions_eq
  by (auto intro!: list_all_map_filter)

lemma detectCollisions_keysMatch:
  "list_all (keysMatch lower) (collisions (detectCollisions lower state incoming))"
  unfolding detectCollisions_eq
  by (auto intro!: list_all_map_filter simp: keysMatch_def dest: find_SomeD)


lemma keysMatch_records:
  "map records cs' = map records cs \<Longrightarrow> list_all (keysMatch lower) cs' = list_all (keysMatch lower) cs"
proof -
  assume eq: "map records cs' = map records cs"
  have "\<And>xs. list_all (keysMatch lower) xs
       = list_all (\<lambda>r. keysMatch lower \<lparr> records = r, resolution = R_skip \<rparr>) (map records xs)"
    by (simp add: list_all_iff keysMatch_def)
  with eq show ?thesis by metis
qed

lemma updateCollisionResolution_preview:
  assumes "mergePreview (ui a) = Some mp"
  shows "\<exists>mp'. mergePreview (ui (updateCollisionResolution i r a)) = Some mp'
     \<and> newShops mp' = newShops mp \<and> newPlayers mp' = newPlayers mp
     \<and> newGroups mp' = newGroups mp \<and> newCustomItems mp' = newCustomItems mp
     \<and> map records (collisions mp') = map records (collisions mp)
     \<and> store (updateCollisionResolution i r a) = store a
     \<and> (r \<noteq> R_replace \<longrightarrow> list_all (\<lambda>c. resolution c \<noteq> R_replace) (collisions mp)
          \<longrightarrow> list_all (\<lambda>c. resolution c \<noteq> R_replace) (collisions mp'))"
proof (cases "i < length (collisions mp)")
  case False
  with assms show ?thesis by (simp add: updateCollisionResolution_def)
next
  case True
  let ?cs = "(collisions mp)[i := (collisions mp ! i)\<lparr> resolution := r \<rparr>]"
  have m: "map records ?cs = map records (collisions mp)"
    using True by (simp add: map_update list_update_same_conv)
  have n: "r \<noteq> R_replace \<longrightarrow> list_all (\<lambda>c. resolution c \<noteq> R_replace) (collisions mp)
          \<longrightarrow> list_all (\<lambda>c. resolution c \<noteq> R_replace) ?cs"
    using True by (auto simp: list_all_length nth_list_update)
  from assms True m n show ?thesis
    by (simp add: updateCollisionResolution_def)
qed

lemma resolveAll_preview:
  assumes "mergePreview (ui a) = Some mp"
  shows "\<exists>mp'. mergePreview (ui (resolveAll edits a)) = Some mp'
     \<and> newShops mp' = newShops mp \<and> newPlayers mp' = newPlayers mp
     \<and> newGroups mp' = newGroups mp \<and> newCustomItems mp' = newCustomItems mp
     \<and> map records (collisions mp') = map records (collisions mp)
     \<and> store (resolveAll edits a) = store a
     \<and> (list_all (\<lambda>e. snd e \<noteq> R_replace) edits
          \<longrightarrow> list_all (\<lambda>c. resolution c \<noteq> R_replace) (collisions mp)
          \<longrightarrow> list_all (\<lambda>c. resolution c \<noteq> R_replace) (collisions mp'))"
  using assms
proof (induction edits arbitrary: a mp)
  case Nil
  then show ?case by (simp add: resolveAll_def)
next
  case (Cons e edits)
  from updateCollisionResolution_preview [OF Cons.prems, of "fst e" "snd e"]
  obtain mp1 where 1: "mergePreview (ui (updateCollisionResolution (fst e) (snd e) a)) = Some mp1"
     "newShops mp1 = newShops mp" "newPlayers mp1 = newPlayers mp"
     "newGroups mp1 = newGroups mp" "newCustomItems mp1 = newCustomItems mp"
     "map records (collisions mp1) = map records (collisions mp)"
     "store (updateCollisionResolution (fst e) (snd e) a) = store a"
     "snd e \<noteq> R_replace \<longrightarrow> list_all (\<lambda>c. resolution c \<noteq> R_replace) (collisions mp)
          \<longrightarrow> list_all (\<lambda>c. resolution c \<noteq> R_replace) (collisions mp1)"
    by blast
  from Cons.IH [OF 1(1)]
  obtain mp2 where 2: "mergePreview (ui (resolveAll edits (updateCollisionResolution (fst e) (snd e) a))) = Some mp2"
     "newShops mp2 = newShops mp1" "newPlayers mp2 = newPlayers mp1"
     "newGroups mp2 = newGroups mp1" "newCustomItems mp2 = newCustomItems mp1"
     "map records (collisions mp2) = map records (collisions mp1)"
     "store (resolveAll edits (updateCollisionResolution (fst e) (snd e) a))
        = store (updateCollisionResolution (fst e) (snd e) a)"
     "list_all (\<lambda>e. snd e \<noteq> R_replace) edits
          \<longrightarrow> list_all (\<lambda>c. resolution c \<noteq> R_replace) (collisions mp1)
          \<longrightarrow> list_all (\<lambda>c. resolution c \<noteq> R_replace) (collisions mp2)"
    by blast
  have r: "resolveAll (e # edits) a = resolveAll edits (updateCollisionResolution (fst e) (snd e) a)"
    by (simp add: resolveAll_def)
  from 1 2 show ?case
    unfolding r by (intro exI [of _ mp2]) simp
qed

lemma confirmImport_collections:
  assumes "mergePreview (ui a) = Some mp"
  shows "shops (store (confirmImport a)) = d_shops (mergedCollections (store a) mp)"
    and "players (store (confirmImport a)) = d_players (mergedCollections (store a) mp)"
    and "groups (store (confirmImport a)) = d_groups (mergedCollections (store a) mp)"
    and "customItems (store (confirmImport a)) = d_customItems (mergedCollections (store a) mp)"
    and "hasUnsavedChanges (store (confirmImport a))"
  using assms
  by (simp_all add: confirmImport_def loadLedgerData_def setHasUnsavedChanges_def)

lemma handleFileImport_preview:
  assumes "processLedger newDate parsed = Inr incoming"
  shows "mergePreview (ui (handleFileImport lower newDate (Some parsed) a))
           = Some (detectCollisions lower (store a) incoming)"
    and "store (handleFileImport lower newDate (Some parsed) a) = store a"
  using assms by (simp_all add: handleFileImport_def)



lemma mergedCollections_no_replace:
  "list_all (\<lambda>c. resolution c \<noteq> R_replace) (collisions mp) \<Longrightarrow>
   mergedCollections state mp =
     \<lparr> d_shops = shops state @ newShops mp, d_players = players state @ newPlayers mp,
       d_groups = groups state @ newGroups mp,
       d_customItems = customItems state @ newCustomItems mp \<rparr>"
  by (simp add: mergedCollections_def fold_applyResolution_no_replace)

lemma pipeline_preview:
  assumes "processLedger newDate parsed = Inr incoming"
  shows "\<exists>mp. shops (store (confirmImport (resolveAll edits (handleFileImport lower newDate (Some parsed) a))))
              = d_shops (mergedCollections (store a) mp)
     \<and> players (store (confirmImport (resolveAll edits (handleFileImport lower newDate (Some parsed) a))))
              = d_players (mergedCollections (store a) mp)
     \<and> groups (store (confirmImport (resolveAll edits (handleFileImport lower newDate (Some parsed) a))))
              = d_groups (mergedCollections (store a) mp)
     \<and> customItems (store (confirmImport (resolveAll edits (handleFileImport lower newDate (Some parsed) a))))
              = d_customItems (mergedCollections (store a) mp)
     \<and> newShops mp = newShops (detectCollisions lower (store a) incoming)
     \<and> newPlayers mp = newPlayers (detectCollisions lower (store a) incoming)
     \<and> newGroups mp = newGroups (detectCollisions lower (store a) incoming)
     \<and> newCustomItems mp = newCustomItems (detectCollisions lower (store a) incoming)
     \<and> list_all (keysMatch lower) (collisions mp)
     \<and> (list_all (\<lambda>e. snd e \<noteq> R_replace) edits
          \<longrightarrow> list_all (\<lambda>c. resolution c \<noteq> R_replace) (collisions mp))"
proof -
  let ?p = "handleFileImport lower newDate (Some parsed) a"
  let ?d = "detectCollisions lower (store a) incoming"
  note h = handleFileImport_preview [OF assms, where a = a and lower = lower]
  from resolveAll_preview [OF h(1), of edits]
  obtain mp where mp: "mergePreview (ui (resolveAll edits ?p)) = Some mp"
     "newShops mp = newShops ?d" "newPlayers mp = newPlayers ?d"
     "newGroups mp = newGroups ?d" "newCustomItems mp = newCustomItems ?d"
     "map records (collisions mp) = map records (collisions ?d)"
     "store (resolveAll edits ?p) = store ?p"
     "list_all (\<lambda>e. snd e \<noteq> R_replace) edits
          \<longrightarrow> list_all (\<lambda>c. resolution c \<noteq> R_replace) (collisions ?d)
          \<longrightarrow> list_all (\<lambda>c. resolution c \<noteq> R_replace) (collisions mp)"
    by blast
  have k: "list_all (keysMatch lower) (collisions mp)"
    using keysMatch_records [OF mp(6)] detectCollisions_keysMatch [of lower "store a" incoming] by simp
  have s: "list_all (\<lambda>c. resolution c \<noteq> R_replace) (collisions ?d)"
    using detectCollisions_skip [of lower "store a" incoming] by (simp add: list_all_iff)
  note c = confirmImport_collections [OF mp(1)]
  show ?thesis
    using c(1-4) mp(2-5,7,8) h(2) k s by (intro exI [of _ mp]) simp
qed


lemma playersLedger_decodes:
  "processLedger exampleNewDate (Some playersLedger)
     = Inr \<lparr> d_shops = [], d_players = [playerNamed ''steve'', playerNamed ''Alex''],
             d_groups = [], d_customItems = [] \<rparr>"
  by (simp add: processLedger_def playersLedger_def falsy_def orElse_def)

















































text \<open>
  C2. Let the incoming file decode, and let the import be confirmed with every collision
  at its default resolution, which is \<open>skip\<close>. Each committed collection is the current one,
  unaltered, followed by exactly the incoming records that match no current record; players
  are matched by their igns in lower case, \<open>lower\<close> being the runtime's \<open>toLowerCase\<close>. With
  the current player \<open>Steve\<close> and the incoming players \<open>steve\<close> and \<open>Alex\<close>, the preview holds
  the one collision of \<open>steve\<close> with \<open>Steve\<close> and the one new record \<open>Alex\<close>, and the commit
  gives the two players \<open>Steve\<close> and \<open>Alex\<close>.
\<close>

theorem merge_default_bias:
  fixes a :: "'d app" and incoming :: "'d collections" and lower :: "string \<Rightarrow> string"
  assumes "processLedger newDate parsed = Inr incoming"
  defines "committed \<equiv> store (confirmImport (handleFileImport lower newDate (Some parsed) a))"
  shows "shops committed
           = shops (store a)
             @ filter (\<lambda>i. find (\<lambda>s. s_id s = s_id i) (shops (store a)) = None) (d_shops incoming)
     \<and> players committed
           = players (store a)
             @ filter (\<lambda>i. find (\<lambda>p. lower (ign p) = lower (ign i)) (players (store a)) = None)
                 (d_players incoming)
     \<and> groups committed
           = groups (store a)
             @ filter (\<lambda>i. find (\<lambda>g. g_id g = g_id i) (groups (store a)) = None) (d_groups incoming)
     \<and> customItems committed
           = customItems (store a)
             @ filter (\<lambda>i. find (\<lambda>c. c_id c = c_id i) (customItems (store a)) = None)
                 (d_customItems incoming)
     \<and> list_all (\<lambda>c. resolution c = R_skip) (collisions (detectCollisions lower (store a) incoming))
     \<and> detectCollisions toLowerCase steveStore
          \<lparr> d_shops = [], d_players = [playerNamed ''steve'', playerNamed ''Alex''],
            d_groups = [], d_customItems = [] \<rparr>
         = \<lparr> newShops = [], newPlayers = [playerNamed ''Alex''], newGroups = [],
             newCustomItems = [],
             collisions = [\<lparr> records = OfPlayer (playerNamed ''Steve'') (playerNamed ''steve''),
                             resolution = R_skip \<rparr>] \<rparr>
     \<and> d_players (mergedCollections steveStore (detectCollisions toLowerCase steveStore
          \<lparr> d_shops = [], d_players = [playerNamed ''steve'', playerNamed ''Alex''],
            d_groups = [], d_customItems = [] \<rparr>))
         = [playerNamed ''Steve'', playerNamed ''Alex'']"
proof -
  let ?d = "detectCollisions lower (store a) incoming"
  note h = handleFileImport_preview [OF assms(1), where a = a and lower = lower]
  have nr: "list_all (\<lambda>c. resolution c \<noteq> R_replace) (collisions ?d)"
    using detectCollisions_skip [of lower "store a" incoming] by (simp add: list_all_iff)
  from confirmImport_collections(1-4) [OF h(1)] h(2) mergedCollections_no_replace [OF nr, of "store a"]
  have c: "shops committed = shops (store a) @ newShops ?d
     \<and> players committed = players (store a) @ newPlayers ?d
     \<and> groups committed = groups (store a) @ newGroups ?d
     \<and> customItems committed = customItems (store a) @ newCustomItems ?d"
    unfolding committed_def by simp
  have s: "detectCollisions toLowerCase steveStore
          \<lparr> d_shops = [], d_players = [playerNamed ''steve'', playerNamed ''Alex''],
            d_groups = [], d_customItems = [] \<rparr>
         = \<lparr> newShops = [], newPlayers = [playerNamed ''Alex''], newGroups = [],
             newCustomItems = [],
             collisions = [\<lparr> records = OfPlayer (playerNamed ''Steve'') (playerNamed ''steve''),
                             resolution = R_skip \<rparr>] \<rparr>"
    by (simp add: detectCollisions_def steveStore_def initialStore_def playerNamed_def
        toLowerCase_def charToLower_def)
  have m: "d_players (mergedCollections steveStore (detectCollisions toLowerCase steveStore
          \<lparr> d_shops = [], d_players = [playerNamed ''steve'', playerNamed ''Alex''],
            d_groups = [], d_customItems = [] \<rparr>))
         = [playerNamed ''Steve'', playerNamed ''Alex'']"
    unfolding s by (simp add: mergedCollections_def applyResolution_def steveStore_def)
  from c s m detectCollisions_skip [of lower "store a" incoming] show ?thesis
    by (simp add: detectCollisions_eq)
qed

theorem merge_default_bias_witness:
  "players (store (confirmImport (handleFileImport toLowerCase exampleNewDate (Some (Some playersLedger)) steveApp)))
     = [playerNamed ''Steve'', playerNamed ''Alex'']
   \<and> shops (store (confirmImport (handleFileImport toLowerCase exampleNewDate (Some (Some playersLedger)) steveApp)))
     = []"
proof -
  have st: "store steveApp = steveStore"
    by (simp add: steveApp_def)
  have pl: "players steveStore = [playerNamed ''Steve''] \<and> shops steveStore = []"
    by (simp add: steveStore_def initialStore_def)
  from merge_default_bias [OF playersLedger_decodes, of toLowerCase steveApp] st pl
  show ?thesis
    by (simp add: playerNamed_def toLowerCase_def charToLower_def)
qed


section \<open>Generated ids\<close>

text \<open>
  C9 at \<open>generateId\<close>: the id is a function of the random draw alone. When \<open>Math.random()\<close>
  returns \<open>0.5\<close> twice, whose text in base 36 is \<open>0.i\<close>, two calls of \<open>addShop\<close> on the initial
  store leave two shops with the id \<open>i\<close>; likewise two groups with the id \<open>i\<close> and two custom
  items with the id \<open>custom_i\<close>.
\<close>

theorem generateId_repeats:
  "generateId ''0.i'' = ''i''
   \<and> map s_id (shops (snd (addShop ''0.i'' 1767975261833 stallData
         (snd (addShop ''0.i'' 1767975196334 stallData initialStore))))) = [''i'', ''i'']
   \<and> map g_id (groups (snd (addGroup ''0.i''
           \<lparr> gd_name = ''Crown Corporation'', gd_members = [], gd_leader = None, gd_notes = None \<rparr>
         (snd (addGroup ''0.i''
           \<lparr> gd_name = ''Guild'', gd_members = [], gd_leader = None, gd_notes = None \<rparr>
           (initialStore :: int shopStore)))))) = [''i'', ''i'']
   \<and> map c_id (customItems (snd (addCustomItem ''0.i'' 1767978227692
           \<lparr> cd_name = ''Fossil'', cd_baseItemId = ''prismarine_shard'', cd_description = None \<rparr>
         (snd (addCustomItem ''0.i'' 1767975196334
           \<lparr> cd_name = ''Relic'', cd_baseItemId = ''bone'', cd_description = None \<rparr>
           initialStore))))) = [''custom_i'', ''custom_i'']
   \<and> \<not> distinct (map s_id (shops (snd (addShop ''0.i'' 1767975261833 stallData
         (snd (addShop ''0.i'' 1767975196334 stallData initialStore))))))"
  by (simp add: generateId_def substring_def addShop_def addGroup_def addCustomItem_def
      initialStore_def Let_def)

end
